theory Spec2Isabelle
  imports Complex_Main
begin

section \<open>JavaScript numbers\<close>

text \<open>
  A JavaScript number is a binary64 value: a finite value, one of the two infinities, or
  NaN. A finite value is carried by the real number it denotes. An arithmetic operation on
  finite values takes the exact result and rounds it to binary64; the rounding, which
  maps a real number to the nearest binary64 value or to an infinity, is a parameter
  \<open>fl\<close> of every definition that computes. The rounding of binary64 itself is
  \<open>fl64\<close> below; \<open>exact_fl\<close> is arithmetic without rounding. The sign of zero
  is not modelled. The comparisons \<open><\<close> and \<open><=\<close> are exact, and every
  comparison with NaN is false.
\<close>

datatype jsnum = Num real | PosInf | NegInf | NaN

type_synonym rounding = "real \<Rightarrow> jsnum"

fun js_le :: "jsnum \<Rightarrow> jsnum \<Rightarrow> bool" where
  "js_le NaN y = False"
| "js_le x NaN = False"
| "js_le (Num a) (Num b) = (a \<le> b)"
| "js_le (Num a) PosInf = True"
| "js_le (Num a) NegInf = False"
| "js_le PosInf (Num b) = False"
| "js_le PosInf PosInf = True"
| "js_le PosInf NegInf = False"
| "js_le NegInf y = True"

fun js_lt :: "jsnum \<Rightarrow> jsnum \<Rightarrow> bool" where
  "js_lt NaN y = False"
| "js_lt x NaN = False"
| "js_lt (Num a) (Num b) = (a < b)"
| "js_lt (Num a) PosInf = True"
| "js_lt (Num a) NegInf = False"
| "js_lt PosInf y = False"
| "js_lt NegInf NegInf = False"
| "js_lt NegInf y = True"


fun js_neg :: "jsnum \<Rightarrow> jsnum" where
  "js_neg (Num a) = Num (- a)"
| "js_neg PosInf = NegInf"
| "js_neg NegInf = PosInf"
| "js_neg NaN = NaN"

fun js_add :: "rounding \<Rightarrow> jsnum \<Rightarrow> jsnum \<Rightarrow> jsnum" where
  "js_add fl NaN y = NaN"
| "js_add fl x NaN = NaN"
| "js_add fl (Num a) (Num b) = fl (a + b)"
| "js_add fl (Num a) y = y"
| "js_add fl x (Num b) = x"
| "js_add fl PosInf PosInf = PosInf"
| "js_add fl NegInf NegInf = NegInf"
| "js_add fl PosInf NegInf = NaN"
| "js_add fl NegInf PosInf = NaN"

definition js_sub :: "rounding \<Rightarrow> jsnum \<Rightarrow> jsnum \<Rightarrow> jsnum" where
  "js_sub fl x y = js_add fl x (js_neg y)"

text \<open>The sign of a product with an infinite factor; zero times infinity is NaN.\<close>

definition inf_signed :: "real \<Rightarrow> jsnum" where
  "inf_signed s = (if s = 0 then NaN else if 0 < s then PosInf else NegInf)"

fun js_mul :: "rounding \<Rightarrow> jsnum \<Rightarrow> jsnum \<Rightarrow> jsnum" where
  "js_mul fl NaN y = NaN"
| "js_mul fl x NaN = NaN"
| "js_mul fl (Num a) (Num b) = fl (a * b)"
| "js_mul fl (Num a) PosInf = inf_signed a"
| "js_mul fl (Num a) NegInf = inf_signed (- a)"
| "js_mul fl PosInf (Num b) = inf_signed b"
| "js_mul fl NegInf (Num b) = inf_signed (- b)"
| "js_mul fl PosInf PosInf = PosInf"
| "js_mul fl NegInf NegInf = PosInf"
| "js_mul fl PosInf NegInf = NegInf"
| "js_mul fl NegInf PosInf = NegInf"

text \<open>
  Division. A zero divisor is read as \<open>+0\<close>; every divisor in the modelled code
  is a non-zero constant.
\<close>

fun js_div :: "rounding \<Rightarrow> jsnum \<Rightarrow> jsnum \<Rightarrow> jsnum" where
  "js_div fl NaN y = NaN"
| "js_div fl x NaN = NaN"
| "js_div fl (Num a) (Num b) = (if b = 0 then inf_signed a else fl (a / b))"
| "js_div fl (Num a) y = Num 0"
| "js_div fl PosInf (Num b) = (if 0 \<le> b then PosInf else NegInf)"
| "js_div fl NegInf (Num b) = (if 0 \<le> b then NegInf else PosInf)"
| "js_div fl x y = NaN"

subsection \<open>The rounding of binary64\<close>

text \<open>
  \<open>pow2 e\<close> is \<open>2\<^sup>e\<close> for an integer \<open>e\<close>, \<open>exponent x\<close> the binary exponent
  of \<open>x\<close>, and \<open>round_even\<close> the nearest integer, the even one of two. \<open>fl64\<close>
  rounds to 53 significant bits with the exponent at least \<open>-1022\<close> (below that the
  values are subnormal) and overflows to an infinity from \<open>2\<^sup>1\<^sup>0\<^sup>2\<^sup>4\<close> on.
\<close>

definition pow2 :: "int \<Rightarrow> real" where
  "pow2 e = (if 0 \<le> e then 2 ^ nat e else 1 / 2 ^ nat (- e))"

definition exponent :: "real \<Rightarrow> int" where
  "exponent x = \<lfloor>log 2 \<bar>x\<bar>\<rfloor>"

definition round_even :: "real \<Rightarrow> int" where
  "round_even q =
     (let f = \<lfloor>q\<rfloor>
      in if q - of_int f < 1 / 2 then f
         else if 1 / 2 < q - of_int f then f + 1
         else if even f then f else f + 1)"

definition fl64 :: rounding where
  "fl64 x =
     (if x = 0 then Num 0
      else
        let e = max (exponent x) (- 1022);
            u = pow2 (e - 52);
            r = of_int (round_even (x / u)) * u
        in if pow2 1024 \<le> \<bar>r\<bar> then (if 0 < x then PosInf else NegInf) else Num r)"

definition exact_fl :: rounding where
  "exact_fl x = Num x"

subsection \<open>The Math object\<close>

text \<open>
  ECMAScript leaves the accuracy of \<open>Math.sin\<close>, \<open>Math.cos\<close>, \<open>Math.sqrt\<close> and
  \<open>Math.atan2\<close> to the implementation, so their values on finite arguments are
  parameters, as is the value of \<open>Math.PI\<close>; the results that the standard fixes
  (NaN for NaN, for the sine and cosine of an infinity and for the square root of a
  negative number) are not.
\<close>

record math =
  PI :: jsnum
  sin_impl :: "real \<Rightarrow> jsnum"
  cos_impl :: "real \<Rightarrow> jsnum"
  sqrt_impl :: "real \<Rightarrow> jsnum"
  atan2_impl :: "jsnum \<Rightarrow> jsnum \<Rightarrow> jsnum"

fun Math_sin :: "math \<Rightarrow> jsnum \<Rightarrow> jsnum" where
  "Math_sin m (Num x) = sin_impl m x"
| "Math_sin m x = NaN"

fun Math_cos :: "math \<Rightarrow> jsnum \<Rightarrow> jsnum" where
  "Math_cos m (Num x) = cos_impl m x"
| "Math_cos m x = NaN"

fun Math_sqrt :: "math \<Rightarrow> jsnum \<Rightarrow> jsnum" where
  "Math_sqrt m (Num x) = (if x < 0 then NaN else sqrt_impl m x)"
| "Math_sqrt m PosInf = PosInf"
| "Math_sqrt m x = NaN"

fun Math_atan2 :: "math \<Rightarrow> jsnum \<Rightarrow> jsnum \<Rightarrow> jsnum" where
  "Math_atan2 m NaN x = NaN"
| "Math_atan2 m y NaN = NaN"
| "Math_atan2 m y x = atan2_impl m y x"

text \<open>
  The angle of the point \<open>(x, y)\<close> in \<open>(-\<pi>, \<pi>]\<close>, and the Math object whose
  functions are the exact ones rounded by \<open>fl\<close>.
\<close>

fun angle :: "jsnum \<Rightarrow> jsnum \<Rightarrow> real" where
  "angle (Num y) (Num x) =
     (if 0 < x then arctan (y / x)
      else if x < 0 then (if 0 \<le> y then arctan (y / x) + pi else arctan (y / x) - pi)
      else if 0 < y then pi / 2
      else if y < 0 then - (pi / 2)
      else 0)"
| "angle (Num y) PosInf = 0"
| "angle (Num y) NegInf = (if 0 \<le> y then pi else - pi)"
| "angle PosInf (Num x) = pi / 2"
| "angle NegInf (Num x) = - (pi / 2)"
| "angle PosInf PosInf = pi / 4"
| "angle PosInf NegInf = 3 * pi / 4"
| "angle NegInf PosInf = - (pi / 4)"
| "angle NegInf NegInf = - (3 * pi / 4)"
| "angle y x = 0"

definition rounded_math :: "rounding \<Rightarrow> jsnum \<Rightarrow> math" where
  "rounded_math fl pi_value =
     \<lparr>PI = pi_value,
      sin_impl = (\<lambda>x. fl (sin x)),
      cos_impl = (\<lambda>x. fl (cos x)),
      sqrt_impl = (\<lambda>x. fl (sqrt x)),
      atan2_impl = (\<lambda>y x. fl (angle y x))\<rparr>"

definition exact_math :: math where
  "exact_math = rounded_math exact_fl (Num pi)"

text \<open>\<open>Math.PI\<close> in binary64, and the Math object with correctly rounded functions.\<close>

definition pi64 :: real where
  "pi64 = 884279719003555 / 2 ^ 48"

definition math64 :: math where
  "math64 = rounded_math fl64 (Num pi64)"

text \<open>\<open>Math.round\<close> rounds to the nearest integer, a half towards \<open>+\<infinity>\<close>.\<close>

fun Math_round :: "jsnum \<Rightarrow> jsnum" where
  "Math_round (Num x) = Num (of_int \<lfloor>x + 1 / 2\<rfloor>)"
| "Math_round x = x"

fun isNaN :: "jsnum \<Rightarrow> bool" where
  "isNaN NaN = True"
| "isNaN x = False"

subsection \<open>Slots that hold a number or nothing\<close>

text \<open>
  A coordinate or a distance handed over by a caller is a number, \<open>null\<close> or
  \<open>undefined\<close>. \<open>ToNumber\<close> is the coercion of the arithmetic operators and
  \<open>ToBoolean\<close> the one of \<open>!\<close> and \<open>||\<close>.
\<close>

datatype jsval = Undefined | Null | Number jsnum

fun ToNumber :: "jsval \<Rightarrow> jsnum" where
  "ToNumber Undefined = NaN"
| "ToNumber Null = Num 0"
| "ToNumber (Number n) = n"

fun ToBoolean :: "jsval \<Rightarrow> bool" where
  "ToBoolean Undefined = False"
| "ToBoolean Null = False"
| "ToBoolean (Number (Num x)) = (x \<noteq> 0)"
| "ToBoolean (Number NaN) = False"
| "ToBoolean (Number n) = True"

text \<open>The test \<open>v == null\<close>, true of \<open>null\<close> and of \<open>undefined\<close> only.\<close>

fun eq_null :: "jsval \<Rightarrow> bool" where
  "eq_null Undefined = True"
| "eq_null Null = True"
| "eq_null (Number n) = False"

section \<open>distanceCalc: haversine distance and the alarm rule\<close>

definition EARTH_RADIUS_KM :: jsnum where
  "EARTH_RADIUS_KM = Num 6371"

definition toRadians :: "rounding \<Rightarrow> math \<Rightarrow> jsnum \<Rightarrow> jsnum" where
  "toRadians fl m degrees = js_mul fl degrees (js_div fl (PI m) (Num 180))"

definition calculateDistance ::
    "rounding \<Rightarrow> math \<Rightarrow> jsval \<Rightarrow> jsval \<Rightarrow> jsval \<Rightarrow> jsval \<Rightarrow> jsnum" where
  "calculateDistance fl m lat1 lon1 lat2 lon2 =
     (if eq_null lat1 \<or> eq_null lon1 \<or> eq_null lat2 \<or> eq_null lon2 then PosInf
      else
        let phi1 = toRadians fl m (ToNumber lat1);
            phi2 = toRadians fl m (ToNumber lat2);
            dphi = toRadians fl m (js_sub fl (ToNumber lat2) (ToNumber lat1));
            dlam = toRadians fl m (js_sub fl (ToNumber lon2) (ToNumber lon1));
            a = js_add fl
                  (js_mul fl (Math_sin m (js_div fl dphi (Num 2)))
                             (Math_sin m (js_div fl dphi (Num 2))))
                  (js_mul fl
                    (js_mul fl (js_mul fl (Math_cos m phi1) (Math_cos m phi2))
                               (Math_sin m (js_div fl dlam (Num 2))))
                    (Math_sin m (js_div fl dlam (Num 2))));
            c = js_mul fl (Num 2)
                  (Math_atan2 m (Math_sqrt m a) (Math_sqrt m (js_sub fl (Num 1) a)))
        in js_mul fl EARTH_RADIUS_KM c)"

datatype alarm_state = Safe | Approaching | PreAlert | Alarm

definition getAlarmState :: "jsnum \<Rightarrow> jsnum \<Rightarrow> alarm_state" where
  "getAlarmState distToDestKm distToPrevKm =
     (if js_le distToDestKm (Num 2) then Alarm
      else if js_le distToPrevKm (Num (1 / 2)) then PreAlert
      else if js_le distToDestKm (Num 15) then Approaching
      else Safe)"

section \<open>useGeolocation: the options of the live watch\<close>

record position_options =
  enableHighAccuracy :: bool
  timeout :: nat
  maximumAge :: nat

definition HIGH_ACCURACY_OPTIONS :: position_options where
  "HIGH_ACCURACY_OPTIONS = \<lparr>enableHighAccuracy = True, timeout = 10000, maximumAge = 5000\<rparr>"

definition LOW_ACCURACY_OPTIONS :: position_options where
  "LOW_ACCURACY_OPTIONS = \<lparr>enableHighAccuracy = False, timeout = 30000, maximumAge = 60000\<rparr>"

text \<open>
  The hook's parameter \<open>distanceToDestKm\<close> has the default \<open>Infinity\<close>, which
  JavaScript takes when the caller passes \<open>undefined\<close>.
\<close>

fun distanceToDestKm_param :: "jsval \<Rightarrow> jsval" where
  "distanceToDestKm_param Undefined = Number PosInf"
| "distanceToDestKm_param v = v"

text \<open>
  \<open>startWatching\<close>: without \<open>navigator.geolocation\<close> it sets an error and
  returns; otherwise it registers a watch with the options chosen from the distance.
\<close>

datatype watch = NoWatch string | Watch position_options

definition startWatching :: "bool \<Rightarrow> jsval \<Rightarrow> watch" where
  "startWatching has_geolocation distanceToDestKm =
     (if \<not> has_geolocation then NoWatch ''Geolocation is not supported by your browser.''
      else Watch (if js_lt (ToNumber (distanceToDestKm_param distanceToDestKm)) (Num 50)
                  then HIGH_ACCURACY_OPTIONS else LOW_ACCURACY_OPTIONS))"

text \<open>
  The effect of the hook: while tracking, the old watch is cleared and a new one is
  started, again whenever the distance changes; otherwise there is no watch.
\<close>

definition useGeolocation :: "bool \<Rightarrow> jsval \<Rightarrow> bool \<Rightarrow> watch option" where
  "useGeolocation has_geolocation distanceToDestKm isTracking =
     (if isTracking then Some (startWatching has_geolocation distanceToDestKm) else None)"

section \<open>Numbers as text\<close>

text \<open>
  JavaScript strings are modelled by their UTF-8 bytes. \<open>show_nat\<close> writes a
  natural number in decimal, \<open>show_int\<close> an integer.
\<close>

definition digit_char :: "nat \<Rightarrow> char" where
  "digit_char d =
     (if d = 0 then CHR ''0'' else if d = 1 then CHR ''1'' else if d = 2 then CHR ''2''
      else if d = 3 then CHR ''3'' else if d = 4 then CHR ''4'' else if d = 5 then CHR ''5''
      else if d = 6 then CHR ''6'' else if d = 7 then CHR ''7'' else if d = 8 then CHR ''8''
      else CHR ''9'')"

fun show_nat :: "nat \<Rightarrow> string" where
  "show_nat n = (if n < 10 then [digit_char n] else show_nat (n div 10) @ [digit_char (n mod 10)])"

declare show_nat.simps [simp del]

definition show_int :: "int \<Rightarrow> string" where
  "show_int i = (if i < 0 then CHR ''-'' # show_nat (nat (- i)) else show_nat (nat i))"

text \<open>
  \<open>Number::toString\<close> writes a finite number with the shortest digits that read
  back as the same binary64 value. For an integer of magnitude below \<open>2\<^sup>5\<^sup>3\<close> these
  are its decimal digits, since every integer of that size is a binary64 value of its own.
  For every other number the digits depend on the neighbours of the value in binary64;
  that rendering is the parameter \<open>shortest\<close>.
\<close>

fun Number_toString :: "(real \<Rightarrow> string) \<Rightarrow> jsnum \<Rightarrow> string" where
  "Number_toString shortest NaN = ''NaN''"
| "Number_toString shortest PosInf = ''Infinity''"
| "Number_toString shortest NegInf = ''-Infinity''"
| "Number_toString shortest (Num x) =
     (if x = of_int \<lfloor>x\<rfloor> \<and> \<bar>x\<bar> < 2 ^ 53 then show_int \<lfloor>x\<rfloor> else shortest x)"

text \<open>
  \<open>Number.prototype.toFixed(f)\<close>: a number that is not finite is written by
  \<open>Number::toString\<close>. Otherwise the sign is split off; a magnitude of \<open>10\<^sup>2\<^sup>1\<close>
  or more is written by \<open>Number::toString\<close>; below that \<open>n\<close> is the integer nearest
  to the magnitude times \<open>10\<^sup>f\<close> (the larger one of two), its digits are padded with
  zeros on the left to \<open>f + 1\<close> digits, and the point goes before the last \<open>f\<close>
  digits. The standard defines \<open>n\<close> on the exact value of the number, so no rounding
  of binary64 enters here.
\<close>

fun toFixed :: "(real \<Rightarrow> string) \<Rightarrow> nat \<Rightarrow> jsnum \<Rightarrow> string" where
  "toFixed shortest f (Num x) =
     (let s = (if x < 0 then ''-'' else []);
          ax = \<bar>x\<bar>
      in if 10 ^ 21 \<le> ax then s @ Number_toString shortest (Num ax)
         else
           let n = nat \<lfloor>ax * 10 ^ f + 1 / 2\<rfloor>;
               m = show_nat n
           in if f = 0 then s @ m
              else
                let m' = (if length m \<le> f then replicate (f + 1 - length m) (CHR ''0'') @ m else m);
                    k = length m'
                in s @ take (k - f) m' @ ''.'' @ drop (k - f) m')"
| "toFixed shortest f x = Number_toString shortest x"

text \<open>The placeholder of \<open>formatDistance\<close>, an em dash (U+2014).\<close>

definition em_dash :: string where
  "em_dash = [CHR 0xE2, CHR 0x80, CHR 0x94]"

definition formatDistance :: "rounding \<Rightarrow> (real \<Rightarrow> string) \<Rightarrow> jsnum \<Rightarrow> string" where
  "formatDistance fl shortest km =
     (if km = PosInf \<or> isNaN km then em_dash
      else if js_lt km (Num 1)
        then Number_toString shortest (Math_round (js_mul fl km (Num 1000))) @ '' m''
      else if js_lt km (Num 10) then toFixed shortest 2 km @ '' km''
      else Number_toString shortest (Math_round km) @ '' km'')"

section \<open>useSimulatedGeolocation: playback along a route\<close>

text \<open>
  A station object as the hooks read it: its two coordinates. A position sample carries
  the interpolated point; its \<open>timestamp\<close>, the wall clock at the tick, is left out.
\<close>

record coords =
  latitude :: jsval
  longitude :: jsval

record position =
  lat :: jsnum
  lon :: jsnum

definition STEPS_PER_SEGMENT :: nat where
  "STEPS_PER_SEGMENT = 100"

text \<open>
  One run of the interval callback on the counters \<open>(seg, step)\<close>: it clears the
  interval, or skips a segment one of whose ends has a falsy latitude, or emits a sample
  with \<open>setPosition\<close> and advances.
\<close>

datatype tick_result = Cleared | Skipped "nat \<times> nat" | Emitted position "nat \<times> nat"

definition tick :: "rounding \<Rightarrow> ('a coords_scheme) list \<Rightarrow> nat \<times> nat \<Rightarrow> tick_result" where
  "tick fl stations st =
     (case st of (seg, step) \<Rightarrow>
        if length stations - 1 \<le> seg then Cleared
        else
          let from = stations ! seg;
              to = stations ! (seg + 1)
          in if \<not> ToBoolean (latitude from) \<or> \<not> ToBoolean (latitude to) then Skipped (seg + 1, 0)
             else
               let t = js_div fl (Num (real step)) (Num (real STEPS_PER_SEGMENT));
                   lat = js_add fl (ToNumber (latitude from))
                           (js_mul fl (js_sub fl (ToNumber (latitude to)) (ToNumber (latitude from))) t);
                   lon = js_add fl (ToNumber (longitude from))
                           (js_mul fl (js_sub fl (ToNumber (longitude to)) (ToNumber (longitude from))) t)
               in Emitted \<lparr>lat = lat, lon = lon\<rparr>
                    (if STEPS_PER_SEGMENT < step + 1 then (seg + 1, 0) else (seg, step + 1)))"

text \<open>
  The samples emitted from given counters on, tick after tick, until the callback clears
  its interval.
\<close>

function samples_from ::
    "rounding \<Rightarrow> ('a coords_scheme) list \<Rightarrow> nat \<times> nat \<Rightarrow> position list" where
  "samples_from fl stations st =
     (case tick fl stations st of
        Cleared \<Rightarrow> []
      | Skipped st' \<Rightarrow> samples_from fl stations st'
      | Emitted p st' \<Rightarrow> p # samples_from fl stations st')"
  by pat_completeness auto
termination
  by (relation "measure (\<lambda>(fl, stations, seg, step). (length stations - seg) * 102 + (101 - step))")
    (auto simp: tick_def Let_def STEPS_PER_SEGMENT_def split: if_splits)

declare samples_from.simps [simp del]

text \<open>
  The effect of the hook: without an active simulation, without stations or with fewer
  than two of them no interval is started; otherwise the counters start at \<open>(0, 0)\<close>.
  The value is the sequence of samples passed to \<open>setPosition\<close>, from the first
  tick to the one that clears the interval.
\<close>

definition useSimulatedGeolocation ::
    "rounding \<Rightarrow> ('a coords_scheme) list option \<Rightarrow> bool \<Rightarrow> position list" where
  "useSimulatedGeolocation fl stations isActive =
     (case stations of
        None \<Rightarrow> []
      | Some sts \<Rightarrow> if \<not> isActive \<or> length sts < 2 then [] else samples_from fl sts (0, 0))"

section \<open>The bridge server\<close>

subsection \<open>Responses\<close>

text \<open>
  A station object of the bridge's JSON: the two coordinates, extended by the fields of
  the route (\<open>status\<close> is \<open>null\<close> when there is none).
\<close>

record station = coords +
  index :: nat
  name :: string
  code :: string
  arrivalTime :: string
  departureTime :: string
  delay :: string
  status :: "string option"

record train_info =
  success :: bool
  trainNumber :: string
  trainName :: string
  lastUpdated :: string
  stations :: "station list"
  isDemo :: "bool option"

text \<open>
  A field of the scraper's JSON that the router hands through untouched: absent or
  \<open>null\<close>, a number, or a string.
\<close>

datatype raw = RawMissing | RawNumber jsnum | RawString string

text \<open>A station of the router's answer: name, code, status, delay, latitude, longitude.\<close>

datatype router_station =
  RouterStation "string option" "string option" "string option" "string option" raw raw

text \<open>
  The JSON bodies: \<open>{error}\<close>; \<open>{success: false, error, fallback?}\<close>; the
  train data of the bridge; and the router's \<open>{trainNumber, lastUpdated, stations}\<close>.
\<close>

datatype json_body =
    ErrorBody string
  | FailureBody string "bool option"
  | TrainBody train_info
  | RouterBody "string option" "string option" "router_station list"

record response =
  status_code :: nat
  json :: json_body

subsection \<open>The scraper behind the bridge\<close>

text \<open>
  One event of the scraper's answer (\<open>station\<close>, \<open>code\<close>, \<open>arrival\<close>,
  \<open>departure\<close>, \<open>delay\<close>, \<open>lat\<close>, \<open>lon\<close>, \<open>type\<close>) and the answer itself.
  A text field is \<open>None\<close> when absent or \<open>null\<close>.
\<close>

record event =
  ev_station :: "string option"
  ev_code :: "string option"
  ev_arrival :: "string option"
  ev_departure :: "string option"
  ev_delay :: "string option"
  ev_lat :: raw
  ev_lon :: raw
  ev_type :: "string option"

record scraper_data =
  train_number :: "string option"
  train_name :: "string option"
  last_update :: "string option"
  events :: "event list option"

text \<open>
  \<open>axios.get\<close> resolves with the data or rejects with an error, of which the handlers
  read \<open>code\<close> and \<open>response.status\<close>.
\<close>

datatype axios_result = Resolved scraper_data | Rejected "string option" "nat option"

text \<open>
  What a handler takes from outside: the scraper's address, the scraper itself, the clock
  (\<open>new Date().toISOString()\<close>) and \<open>parseFloat\<close> on strings.
\<close>

record env =
  SCRAPER_URL :: string
  axios_get :: "string \<Rightarrow> axios_result"
  now_iso :: string
  parseFloat_string :: "string \<Rightarrow> jsnum"

subsection \<open>The pattern of a train number\<close>

definition is_digit :: "char \<Rightarrow> bool" where
  "is_digit c \<longleftrightarrow> c \<in> set ''0123456789''"

text \<open>\<open>\d{n}\<close>: exactly \<open>n\<close> digits, then the rest of the input.\<close>

fun match_digits :: "nat \<Rightarrow> string \<Rightarrow> string option" where
  "match_digits 0 s = Some s"
| "match_digits (Suc n) [] = None"
| "match_digits (Suc n) (c # cs) = (if is_digit c then match_digits n cs else None)"

text \<open>
  \<open>/^\d{5}$/.test(trainNo)\<close>: the pattern is anchored at the start, and without the
  \<open>m\<close> flag \<open>$\<close> matches at the end of the input only.
\<close>

definition train_number_pattern :: "string \<Rightarrow> bool" where
  "train_number_pattern trainNo =
     (case match_digits 5 trainNo of None \<Rightarrow> False | Some rest \<Rightarrow> rest = [])"

subsection \<open>The handlers\<close>

text \<open>\<open>x || d\<close> on a text field: the empty string is falsy as well.\<close>

fun text_or :: "string option \<Rightarrow> string \<Rightarrow> string" where
  "text_or None d = d"
| "text_or (Some s) d = (if s = [] then d else s)"

fun text_or_null :: "string option \<Rightarrow> string option" where
  "text_or_null None = None"
| "text_or_null (Some s) = (if s = [] then None else Some s)"

fun parseFloat :: "(string \<Rightarrow> jsnum) \<Rightarrow> raw \<Rightarrow> jsnum" where
  "parseFloat pf RawMissing = NaN"
| "parseFloat pf (RawNumber n) = n"
| "parseFloat pf (RawString s) = pf s"

text \<open>\<open>parseFloat(v) || null\<close>: zero and NaN become \<open>null\<close>.\<close>

definition number_or_null :: "jsnum \<Rightarrow> jsval" where
  "number_or_null n = (if ToBoolean (Number n) then Number n else Null)"

text \<open>\<open>v || null\<close> on a field handed through.\<close>

fun raw_or_null :: "raw \<Rightarrow> raw" where
  "raw_or_null RawMissing = RawMissing"
| "raw_or_null (RawNumber n) = (if ToBoolean (Number n) then RawNumber n else RawMissing)"
| "raw_or_null (RawString s) = (if s = [] then RawMissing else RawString s)"

definition format_stop :: "env \<Rightarrow> nat \<times> event \<Rightarrow> station" where
  "format_stop e p =
     (case p of (i, stop) \<Rightarrow>
        \<lparr>latitude = number_or_null (parseFloat (parseFloat_string e) (ev_lat stop)),
         longitude = number_or_null (parseFloat (parseFloat_string e) (ev_lon stop)),
         index = i,
         name = text_or (ev_station stop) ''Unknown Station'',
         code = text_or (ev_code stop) ''???'',
         arrivalTime = text_or (ev_arrival stop) ''N/A'',
         departureTime = text_or (ev_departure stop) ''N/A'',
         delay = text_or (ev_delay stop) ''00:00'',
         status = text_or_null (ev_type stop)\<rparr>)"

text \<open>
  \<open>GET /api/train/:trainNo\<close> of the bridge. The value is the response together with
  the requests sent to the scraper.
\<close>

definition get_train :: "env \<Rightarrow> string \<Rightarrow> response \<times> string list" where
  "get_train e trainNo =
     (if \<not> train_number_pattern trainNo
      then (\<lparr>status_code = 400, json = ErrorBody ''Invalid train number. Must be 5 digits.''\<rparr>, [])
      else
        let url = SCRAPER_URL e @ ''/train/'' @ trainNo
        in (case axios_get e url of
              Resolved data \<Rightarrow>
                \<lparr>status_code = 200,
                 json = TrainBody
                   \<lparr>success = True,
                    trainNumber = text_or (train_number data) trainNo,
                    trainName = text_or (train_name data) (''Train '' @ trainNo),
                    lastUpdated = text_or (last_update data) (now_iso e),
                    stations =
                      map (format_stop e)
                        (enumerate 0 (case events data of None \<Rightarrow> [] | Some evs \<Rightarrow> evs)),
                    isDemo = None\<rparr>\<rparr>
            | Rejected err_code err_status \<Rightarrow>
                if err_code = Some ''ECONNREFUSED''
                then \<lparr>status_code = 503,
                      json = FailureBody
                        ''Python TrainTrack scraper is offline. Start it on port 8000.'' (Some True)\<rparr>
                else if err_status = Some 404
                then \<lparr>status_code = 404,
                      json = FailureBody (''Train '' @ trainNo @ '' not found.'') None\<rparr>
                else \<lparr>status_code = 500, json = FailureBody ''Failed to fetch train data.'' None\<rparr>,
            [url]))"

text \<open>
  \<open>GET /:trainNo\<close> of the router, whose scraper address is fixed. Events that are
  missing make \<open>events.map\<close> throw, which the handler catches like every other error.
\<close>

definition PYTHON_SERVICE_URL :: string where
  "PYTHON_SERVICE_URL = ''http://localhost:8000''"

definition router_station_of :: "event \<Rightarrow> router_station" where
  "router_station_of ev =
     RouterStation (ev_station ev) (ev_code ev) (ev_type ev) (ev_delay ev)
       (raw_or_null (ev_lat ev)) (raw_or_null (ev_lon ev))"

definition router_get_train :: "env \<Rightarrow> string \<Rightarrow> response \<times> string list" where
  "router_get_train e trainNo =
     (if \<not> train_number_pattern trainNo
      then (\<lparr>status_code = 400, json = ErrorBody ''Invalid train number. Must be 5 digits.''\<rparr>, [])
      else
        let url = PYTHON_SERVICE_URL @ ''/train/'' @ trainNo
        in (case axios_get e url of
              Resolved data \<Rightarrow>
                (case events data of
                   Some evs \<Rightarrow>
                     \<lparr>status_code = 200,
                      json = RouterBody (train_number data) (last_update data)
                               (map router_station_of evs)\<rparr>
                 | None \<Rightarrow> \<lparr>status_code = 500, json = ErrorBody ''Failed to fetch train data.''\<rparr>)
            | Rejected err_code err_status \<Rightarrow>
                if err_code = Some ''ECONNREFUSED''
                then \<lparr>status_code = 503,
                      json = ErrorBody
                        ''Python Scraper (TrainTrack) is offline. Start it on port 8000.''\<rparr>
                else \<lparr>status_code = 500, json = ErrorBody ''Failed to fetch train data.''\<rparr>,
            [url]))"

subsection \<open>The demo route\<close>

text \<open>The table of \<open>generateMockRoute\<close>: name, code, lat, lon, arr, dep.\<close>

definition route :: "(string \<times> string \<times> real \<times> real \<times> string \<times> string) list" where
  "route =
     [(''Chennai Central'', ''MAS'', 13.0827, 80.2707, ''Origin'', ''07:10''),
      (''Chengalpattu'', ''CGL'', 12.6921, 79.9765, ''08:18'', ''08:20''),
      (''Villupuram Junction'', ''VM'', 11.9393, 79.4924, ''09:48'', ''09:53''),
      (''Cuddalore Port'', ''CUPJ'', 11.7447, 79.7678, ''10:22'', ''10:24''),
      (''Chidambaram'', ''CDM'', 11.3993, 79.6934, ''11:05'', ''11:07''),
      (''Mayiladuthurai Jn'', ''MV'', 11.1034, 79.6508, ''11:55'', ''12:00''),
      (''Thanjavur Junction'', ''TJ'', 10.7870, 79.1378, ''13:00'', ''13:05''),
      (''Trichy Junction'', ''TPJ'', 10.8155, 78.6877, ''14:05'', ''14:15''),
      (''Dindigul Junction'', ''DG'', 10.3673, 77.9803, ''15:18'', ''15:20''),
      (''Madurai Junction'', ''MDU'', 9.9252, 78.1198, ''16:30'', ''16:40''),
      (''Virudhunagar Jn'', ''VPT'', 9.5810, 77.9624, ''17:28'', ''17:30''),
      (''Tirunelveli Jn'', ''TEN'', 8.7139, 77.7567, ''18:55'', ''19:00''),
      (''Nagercoil Junction'', ''NCJ'', 8.1833, 77.4119, ''19:55'', ''20:00''),
      (''Kanyakumari'', ''CAPE'', 8.0883, 77.5385, ''20:30'', ''Terminus'')]"

definition mock_station :: "nat \<times> string \<times> string \<times> real \<times> real \<times> string \<times> string \<Rightarrow> station" where
  "mock_station p =
     (case p of (i, s_name, s_code, s_lat, s_lon, s_arr, s_dep) \<Rightarrow>
        \<lparr>latitude = Number (Num s_lat),
         longitude = Number (Num s_lon),
         index = i,
         name = s_name,
         code = s_code,
         arrivalTime = s_arr,
         departureTime = s_dep,
         delay = ''00:00'',
         status = None\<rparr>)"

definition generateMockRoute :: "string \<Rightarrow> station list" where
  "generateMockRoute trainNo = map mock_station (enumerate 0 route)"

text \<open>\<open>GET /api/demo/:trainNo\<close>: no request is sent to the scraper.\<close>

definition get_demo :: "env \<Rightarrow> string \<Rightarrow> response \<times> string list" where
  "get_demo e trainNo =
     (let mockStations = generateMockRoute trainNo
      in (\<lparr>status_code = 200,
           json = TrainBody
             \<lparr>success = True,
              trainNumber = trainNo,
              trainName = ''Chennai Kanyakumari Cape Express ('' @ trainNo @ '')'',
              lastUpdated = now_iso e,
              stations = mockStations,
              isDemo = Some True\<rparr>\<rparr>,
          []))"

section \<open>The service worker\<close>

text \<open>
  The payload object of a message, read through the four keys the handlers destructure;
  a key that is absent reads as \<open>undefined\<close> (\<open>None\<close> for the text keys).
\<close>

record payload =
  stationName :: "string option"
  distance :: jsval
  prevStationName :: "string option"
  destStationName :: "string option"

text \<open>\<open>event.data\<close>: its \<open>type\<close> and its \<open>payload\<close>, either of which may be absent.\<close>

record message =
  mtype :: "string option"
  mpayload :: "payload option"

text \<open>The \<open>data\<close> of the alarm notification: station name, distance, timestamp.\<close>

datatype alarm_data = AlarmData "string option" jsval nat

text \<open>The options passed to \<open>showNotification\<close>; a key left out is \<open>None\<close>.\<close>

record notification_options =
  body :: string
  icon :: string
  badge :: "string option"
  tag :: string
  renotify :: "bool option"
  requireInteraction :: bool
  vibrate :: "nat list"
  actions :: "(string \<times> string) list"
  data :: "alarm_data option"

datatype sw_effect =
    ShowNotification string notification_options
  | CachePut string "payload option"

datatype js_error = TypeError

text \<open>A text key inside a template literal.\<close>

fun template_text :: "string option \<Rightarrow> string" where
  "template_text None = ''undefined''"
| "template_text (Some s) = s"

text \<open>
  The distance inside the body of the alarm: metres below 1 km, else \<open>toFixed(1)\<close>,
  a method that \<open>undefined\<close> does not have (\<open>null\<close> compares as 0 and takes the
  first branch).
\<close>

definition distance_text :: "rounding \<Rightarrow> (real \<Rightarrow> string) \<Rightarrow> jsval \<Rightarrow> js_error + string" where
  "distance_text fl shortest d =
     (if js_lt (ToNumber d) (Num 1)
      then Inr (Number_toString shortest (Math_round (js_mul fl (ToNumber d) (Num 1000))) @ ''m'')
      else (case d of
              Number n \<Rightarrow> Inr (toFixed shortest 1 n @ ''km'')
            | _ \<Rightarrow> Inl TypeError))"

text \<open>
  The titles begin with an emoji, written here by its UTF-8 bytes: U+1F6A8 for the alarm,
  U+26A0 U+FE0F for the pre-alert, U+2705 and U+23F0 on the two actions.
\<close>

definition alarm_title :: string where
  "alarm_title = [CHR 0xF0, CHR 0x9F, CHR 0x9A, CHR 0xA8] @ '' WAKE UP! Destination Approaching!''"

definition pre_alert_title :: string where
  "pre_alert_title = [CHR 0xE2, CHR 0x9A, CHR 0xA0, CHR 0xEF, CHR 0xB8, CHR 0x8F] @ '' Next Stop Alert''"

definition showAlarmNotification ::
    "rounding \<Rightarrow> (real \<Rightarrow> string) \<Rightarrow> nat \<Rightarrow> payload option \<Rightarrow> js_error + sw_effect list" where
  "showAlarmNotification fl shortest now p =
     (case p of
        None \<Rightarrow> Inl TypeError
      | Some pl \<Rightarrow>
          (case distance_text fl shortest (distance pl) of
             Inl err \<Rightarrow> Inl err
           | Inr dtext \<Rightarrow>
               Inr [ShowNotification alarm_title
                 \<lparr>body = template_text (stationName pl) @ '' is '' @ dtext @ '' away. Get ready!'',
                  icon = ''/icons/icon-192x192.png'',
                  badge = Some ''/icons/badge-72x72.png'',
                  tag = ''destination-alarm'',
                  renotify = Some True,
                  requireInteraction = True,
                  vibrate = [500, 200, 500, 200, 500, 200, 1000],
                  actions =
                    [(''dismiss'', [CHR 0xE2, CHR 0x9C, CHR 0x85] @ '' I'' @ [CHR 0x27] @ ''m Awake!''),
                     (''snooze'', [CHR 0xE2, CHR 0x8F, CHR 0xB0] @ '' Snooze 2 min'')],
                  data = Some (AlarmData (stationName pl) (distance pl) now)\<rparr>]))"

definition showPreAlertNotification :: "payload option \<Rightarrow> js_error + sw_effect list" where
  "showPreAlertNotification p =
     (case p of
        None \<Rightarrow> Inl TypeError
      | Some pl \<Rightarrow>
          Inr [ShowNotification pre_alert_title
            \<lparr>body = ''Leaving '' @ template_text (prevStationName pl) @ ''. Your destination ''
                      @ template_text (destStationName pl) @ '' is the next stop!'',
             icon = ''/icons/icon-192x192.png'',
             badge = None,
             tag = ''pre-alert'',
             renotify = None,
             requireInteraction = False,
             vibrate = [200, 100, 200],
             actions = [],
             data = None\<rparr>])"

text \<open>
  The \<open>message\<close> listener: \<open>event.data || {}\<close> is destructured and the three types
  are tried in turn; an exception of a handler ends the listener.
\<close>

definition on_message ::
    "rounding \<Rightarrow> (real \<Rightarrow> string) \<Rightarrow> nat \<Rightarrow> message option \<Rightarrow> js_error + sw_effect list" where
  "on_message fl shortest now event_data =
     (let m = (case event_data of
                 None \<Rightarrow> \<lparr>mtype = None, mpayload = None\<rparr>
               | Some d \<Rightarrow> d)
      in if mtype m = Some ''TRIGGER_ALARM'' then showAlarmNotification fl shortest now (mpayload m)
         else if mtype m = Some ''PRE_ALERT'' then showPreAlertNotification (mpayload m)
         else if mtype m = Some ''CACHE_ROUTE'' then Inr [CachePut ''/cached-route'' (mpayload m)]
         else Inr [])"

section \<open>Notions used in the statements\<close>

text \<open>
  The haversine term of two finite points, as \<open>calculateDistance\<close> computes it
  before the arc tangent.
\<close>

definition hav :: "real \<Rightarrow> real \<Rightarrow> real \<Rightarrow> real \<Rightarrow> real" where
  "hav lat1 lon1 lat2 lon2 =
     (sin ((lat2 - lat1) * (pi / 180) / 2))\<^sup>2 +
     cos (lat1 * (pi / 180)) * cos (lat2 * (pi / 180)) * (sin ((lon2 - lon1) * (pi / 180) / 2))\<^sup>2"

text \<open>A distance is a finite number within \<open>tol\<close> of \<open>centre\<close>.\<close>

definition within_km :: "jsnum \<Rightarrow> real \<Rightarrow> real \<Rightarrow> bool" where
  "within_km d centre tol = (case d of Num x \<Rightarrow> \<bar>x - centre\<bar> \<le> tol | _ \<Rightarrow> False)"

text \<open>
  A station with present coordinates in the sense of the truthiness tests: both
  coordinates are finite numbers and the latitude is truthy, that is, not zero.
\<close>

fun finite_number :: "jsval \<Rightarrow> bool" where
  "finite_number (Number (Num x)) = True"
| "finite_number v = False"

definition located :: "'a coords_scheme \<Rightarrow> bool" where
  "located s \<longleftrightarrow>
     finite_number (latitude s) \<and> finite_number (longitude s) \<and> ToBoolean (latitude s)"

text \<open>
  A number of binary64 is a real number that rounding leaves as it is.
\<close>

definition binary64 :: "real \<Rightarrow> bool" where
  "binary64 x \<longleftrightarrow> fl64 x = Num x"

text \<open>
  A coordinate in degrees: a binary64 number of magnitude at most 180. A station is
  placed when both of its coordinates are such numbers and its latitude is not zero.
\<close>

fun degrees :: "jsval \<Rightarrow> bool" where
  "degrees (Number (Num x)) = (binary64 x \<and> \<bar>x\<bar> \<le> 180)"
| "degrees v = False"

definition placed :: "'a coords_scheme \<Rightarrow> bool" where
  "placed s \<longleftrightarrow> degrees (latitude s) \<and> degrees (longitude s) \<and> ToNumber (latitude s) \<noteq> Num 0"

definition station_position :: "'a coords_scheme \<Rightarrow> position" where
  "station_position s = \<lparr>lat = ToNumber (latitude s), lon = ToNumber (longitude s)\<rparr>"

text \<open>The sample of a segment at a step, and the 101 samples of the segment \<open>i\<close>.\<close>

definition interpolated ::
    "rounding \<Rightarrow> 'a coords_scheme \<Rightarrow> 'a coords_scheme \<Rightarrow> nat \<Rightarrow> position" where
  "interpolated fl from to step =
     (let t = js_div fl (Num (real step)) (Num 100)
      in \<lparr>lat = js_add fl (ToNumber (latitude from))
                 (js_mul fl (js_sub fl (ToNumber (latitude to)) (ToNumber (latitude from))) t),
          lon = js_add fl (ToNumber (longitude from))
                 (js_mul fl (js_sub fl (ToNumber (longitude to)) (ToNumber (longitude from))) t)\<rparr>)"

definition segment_samples :: "rounding \<Rightarrow> ('a coords_scheme) list \<Rightarrow> nat \<Rightarrow> position list" where
  "segment_samples fl sts i = map (interpolated fl (sts ! i) (sts ! (i + 1))) [0..<101]"

text \<open>
  Two numbers are close when both are finite and differ by at most \<open>tol\<close>; two
  positions are close when their latitudes and their longitudes are.
\<close>

fun close_to :: "real \<Rightarrow> jsnum \<Rightarrow> jsnum \<Rightarrow> bool" where
  "close_to tol (Num x) (Num y) = (\<bar>x - y\<bar> \<le> tol)"
| "close_to tol x y = False"

definition near :: "real \<Rightarrow> position \<Rightarrow> position \<Rightarrow> bool" where
  "near tol p q \<longleftrightarrow> close_to tol (lat p) (lat q) \<and> close_to tol (lon p) (lon q)"

text \<open>
  The step from one station to the next is exact when the differences of their
  latitudes and of their longitudes are numbers of binary64.
\<close>

fun exact_difference :: "jsval \<Rightarrow> jsval \<Rightarrow> bool" where
  "exact_difference (Number (Num a)) (Number (Num b)) = binary64 (b - a)"
| "exact_difference u v = False"

definition exact_step :: "'a coords_scheme \<Rightarrow> 'a coords_scheme \<Rightarrow> bool" where
  "exact_step from to \<longleftrightarrow>
     exact_difference (latitude from) (latitude to) \<and>
     exact_difference (longitude from) (longitude to)"

text \<open>Two decimals of a number with \<open>n\<close> hundredths, \<open>100 \<le> n\<close>.\<close>

definition two_decimals :: "nat \<Rightarrow> string" where
  "two_decimals n = show_nat (n div 100) @ ''.'' @ [digit_char (n div 10 mod 10), digit_char (n mod 10)]"

text \<open>Reading a decimal numeral back, to state that \<open>show_nat\<close> writes the digits.\<close>

definition digit_value :: "char \<Rightarrow> nat" where
  "digit_value c = of_char c - 48"

definition read_nat :: "string \<Rightarrow> nat" where
  "read_nat s = foldl (\<lambda>a c. 10 * a + digit_value c) 0 s"

section \<open>Properties of the rounding of binary64\<close>

lemma pow2_powr: "pow2 e = 2 powr (of_int e)"
  by (simp add: pow2_def powr_int)

lemma pow2_pos: "0 < pow2 e"
  by (simp add: pow2_powr)

lemma pow2_add: "pow2 (a + b) = pow2 a * pow2 b"
  by (simp add: pow2_powr powr_add)

lemma pow2_mono: "a \<le> b \<Longrightarrow> pow2 a \<le> pow2 b"
  by (simp add: pow2_powr)

lemma pow2_less: "a < b \<Longrightarrow> pow2 a < pow2 b"
  by (simp add: pow2_powr)

lemma exponent_bounds:
  assumes "x \<noteq> 0"
  shows "pow2 (exponent x) \<le> \<bar>x\<bar>" "\<bar>x\<bar> < pow2 (exponent x + 1)"
proof -
  have "0 < \<bar>x\<bar>" using assms by simp
  then have "2 powr (of_int (exponent x)) \<le> \<bar>x\<bar> \<and> \<bar>x\<bar> < 2 powr (of_int (exponent x + 1))"
    using floor_log_eq_powr_iff [of "\<bar>x\<bar>" 2 "exponent x"] by (simp add: exponent_def)
  then show "pow2 (exponent x) \<le> \<bar>x\<bar>" "\<bar>x\<bar> < pow2 (exponent x + 1)"
    by (simp_all add: pow2_powr)
qed

lemma exponent_eq:
  assumes "pow2 e \<le> \<bar>x\<bar>" "\<bar>x\<bar> < pow2 (e + 1)"
  shows "exponent x = e"
proof -
  have "0 < \<bar>x\<bar>" using assms(1) pow2_pos [of e] by linarith
  then show ?thesis
    using floor_log_eq_powr_iff [of "\<bar>x\<bar>" 2 e] assms by (simp add: exponent_def pow2_powr)
qed

lemma round_even_near: "\<bar>of_int (round_even q) - q\<bar> \<le> 1 / 2"
  unfolding round_even_def Let_def by (auto; linarith)

lemma round_even_int: "round_even (of_int n) = n"
  by (simp add: round_even_def)

lemma round_even_neg: "round_even (- q) = - round_even q"
proof (cases "q = of_int \<lfloor>q\<rfloor>")
  case True
  then obtain n where "q = of_int n" ..
  then show ?thesis using round_even_int [of n] round_even_int [of "- n"] by simp
next
  case False
  then have fl: "\<lfloor>- q\<rfloor> = - \<lfloor>q\<rfloor> - 1"
    by (simp add: floor_minus ceiling_altdef)
  have "q - of_int \<lfloor>q\<rfloor> < 1 / 2 \<or> q - of_int \<lfloor>q\<rfloor> = 1 / 2 \<or> 1 / 2 < q - of_int \<lfloor>q\<rfloor>"
    by linarith
  then show ?thesis
  proof (elim disjE)
    assume "q - of_int \<lfloor>q\<rfloor> < 1 / 2"
    then show ?thesis unfolding round_even_def Let_def fl by simp
  next
    assume "q - of_int \<lfloor>q\<rfloor> = 1 / 2"
    then show ?thesis unfolding round_even_def Let_def fl by simp
  next
    assume "1 / 2 < q - of_int \<lfloor>q\<rfloor>"
    then show ?thesis unfolding round_even_def Let_def fl by simp
  qed
qed

lemma round_even_nonneg: "0 \<le> q \<Longrightarrow> 0 \<le> round_even q"
  unfolding round_even_def Let_def by (auto; linarith)

lemma round_even_le: "q \<le> of_int n \<Longrightarrow> round_even q \<le> n"
  using round_even_near [of q] by linarith




lemma pow2_int:
  assumes "0 \<le> k"
  shows "pow2 k = of_int (2 ^ nat k)"
  using assms by (simp add: pow2_def)

lemma pow2_diff: "pow2 a / pow2 b = pow2 (a - b)"
  using pow2_add [of "a - b" b] pow2_pos [of b] by (simp add: field_simps)

text \<open>The rounded value of a non-zero number, before the test for overflow.\<close>

lemma fl64_round:
  fixes x :: real
  assumes "x \<noteq> 0"
  defines "e \<equiv> max (exponent x) (- 1022)"
  defines "u \<equiv> pow2 (e - 52)"
  defines "n \<equiv> round_even (x / u)"
  shows "\<bar>of_int n * u - x\<bar> \<le> u / 2"
    and "\<bar>n\<bar> \<le> 2 ^ 53"
    and "\<bar>of_int n * u\<bar> \<le> pow2 (e + 1)"
    and "0 \<le> x \<Longrightarrow> 0 \<le> n"
proof -
  have u: "0 < u" unfolding u_def by (rule pow2_pos)
  have "\<bar>of_int n - x / u\<bar> \<le> 1 / 2" unfolding n_def by (rule round_even_near)
  then have "\<bar>of_int n - x / u\<bar> * u \<le> 1 / 2 * u"
    using u by (intro mult_right_mono) simp_all
  moreover have "(of_int n - x / u) * u = of_int n * u - x"
    using u by (simp add: left_diff_distrib)
  then have "\<bar>of_int n - x / u\<bar> * \<bar>u\<bar> = \<bar>of_int n * u - x\<bar>"
    by (metis abs_mult)
  then have "\<bar>of_int n - x / u\<bar> * u = \<bar>of_int n * u - x\<bar>"
    using u by simp
  ultimately show "\<bar>of_int n * u - x\<bar> \<le> u / 2" by simp
  have "\<bar>x\<bar> < pow2 (exponent x + 1)" using assms(1) by (rule exponent_bounds)
  also have "\<dots> \<le> pow2 (e + 1)" unfolding e_def by (intro pow2_mono) simp
  finally have "\<bar>x\<bar> / u < pow2 (e + 1) / u" using u by (simp add: divide_strict_right_mono)
  also have "pow2 (e + 1) / u = pow2 53" unfolding u_def by (simp add: pow2_diff)
  also have "pow2 53 = 2 ^ 53" by (simp add: pow2_def)
  finally have q: "\<bar>x / u\<bar> < 2 ^ 53" using u by simp
  have "x / u \<le> 2 ^ 53" using q by linarith
  then have "x / u \<le> of_int (2 ^ 53)" by simp
  then have "n \<le> 2 ^ 53" unfolding n_def by (rule round_even_le)
  moreover have "- (x / u) \<le> 2 ^ 53" using q by linarith
  then have "- (x / u) \<le> of_int (2 ^ 53)" by simp
  then have "round_even (- (x / u)) \<le> 2 ^ 53" by (rule round_even_le)
  then have "- n \<le> 2 ^ 53" unfolding n_def by (simp add: round_even_neg)
  ultimately show n53: "\<bar>n\<bar> \<le> 2 ^ 53" by simp
  have "\<bar>of_int n * u\<bar> = of_int \<bar>n\<bar> * u" using u by (simp add: abs_mult)
  also have "\<dots> \<le> of_int (2 ^ 53) * u"
  proof (rule mult_right_mono)
    show "(of_int \<bar>n\<bar> :: real) \<le> of_int (2 ^ 53)" using n53 by (simp only: of_int_le_iff)
    show "0 \<le> u" using u by simp
  qed
  also have "of_int (2 ^ 53) = pow2 53" by (simp add: pow2_def)
  also have "pow2 53 * u = pow2 (e + 1)"
    using pow2_add [of 53 "e - 52"] unfolding u_def by (simp add: add.commute)
  finally show "\<bar>of_int n * u\<bar> \<le> pow2 (e + 1)" .
  show "0 \<le> n" if "0 \<le> x"
    unfolding n_def using that u by (intro round_even_nonneg) simp
qed

lemma fl64_unfold:
  assumes "x \<noteq> 0"
  shows "fl64 x =
     (if pow2 1024 \<le> \<bar>of_int (round_even (x / pow2 (max (exponent x) (- 1022) - 52))) *
                        pow2 (max (exponent x) (- 1022) - 52)\<bar>
      then (if 0 < x then PosInf else NegInf)
      else Num (of_int (round_even (x / pow2 (max (exponent x) (- 1022) - 52))) *
                pow2 (max (exponent x) (- 1022) - 52)))"
  using assms by (simp add: fl64_def Let_def)


lemma pow2_le_iff: "pow2 a \<le> pow2 b \<longleftrightarrow> a \<le> b"
  by (simp add: pow2_powr)

lemma pow2_less_iff: "pow2 a < pow2 b \<longleftrightarrow> a < b"
  by (simp add: pow2_powr)

text \<open>A number below \<open>2\<^sup>k\<close> in magnitude is rounded to a finite number at most
  \<open>2\<^sup>k\<^sup>-\<^sup>5\<^sup>4\<close> away.\<close>

lemma fl64_accurate:
  assumes "\<bar>x\<bar> < pow2 k" "- 1021 \<le> k" "k \<le> 1023"
  obtains r where "fl64 x = Num r" "\<bar>r - x\<bar> \<le> pow2 (k - 54)" "\<bar>r\<bar> \<le> pow2 k" "0 \<le> x \<Longrightarrow> 0 \<le> r"
proof (cases "x = 0")
  case True
  show ?thesis
  proof (rule that [of 0])
    show "fl64 x = Num 0" using True by (simp add: fl64_def)
    show "\<bar>0 - x\<bar> \<le> pow2 (k - 54)" using True pow2_pos [of "k - 54"] by simp
    show "\<bar>0::real\<bar> \<le> pow2 k" using pow2_pos [of k] by simp
  qed simp
next
  case False
  define e where "e = max (exponent x) (- 1022)"
  define u where "u = pow2 (e - 52)"
  define n where "n = round_even (x / u)"
  define r where "r = of_int n * u"
  have u: "0 < u" unfolding u_def by (rule pow2_pos)
  note rnd = fl64_round [OF False, folded e_def, folded u_def, folded n_def, folded r_def]
  have "pow2 (exponent x) \<le> \<bar>x\<bar>" using False by (rule exponent_bounds)
  with assms(1) have "pow2 (exponent x) < pow2 k" by simp
  then have "exponent x < k" by (simp only: pow2_less_iff)
  then have ek: "e \<le> k - 1" using assms(2) unfolding e_def by simp
  have "u \<le> pow2 (k - 53)" unfolding u_def using ek by (intro pow2_mono) simp
  moreover have "pow2 (k - 53) = 2 * pow2 (k - 54)"
    using pow2_add [of 1 "k - 54"] by (simp add: pow2_def)
  ultimately have err: "\<bar>r - x\<bar> \<le> pow2 (k - 54)" using rnd(1) by simp
  have "pow2 k / u = pow2 (k - e + 52)"
    unfolding u_def by (simp add: pow2_diff algebra_simps)
  also have "\<dots> = of_int (2 ^ nat (k - e + 52))" using ek by (intro pow2_int) simp
  finally have ku: "pow2 k / u = of_int (2 ^ nat (k - e + 52))" .
  have "\<bar>x / u\<bar> \<le> pow2 k / u" using assms(1) u by (simp add: divide_right_mono)
  then have q: "x / u \<le> of_int (2 ^ nat (k - e + 52))" "- (x / u) \<le> of_int (2 ^ nat (k - e + 52))"
    unfolding ku by linarith+
  have "n \<le> 2 ^ nat (k - e + 52)" unfolding n_def using q(1) by (rule round_even_le)
  moreover have "round_even (- (x / u)) \<le> 2 ^ nat (k - e + 52)" using q(2) by (rule round_even_le)
  then have "- n \<le> 2 ^ nat (k - e + 52)" unfolding n_def by (simp add: round_even_neg)
  ultimately have "\<bar>n\<bar> \<le> 2 ^ nat (k - e + 52)" by simp
  then have "(of_int \<bar>n\<bar> :: real) \<le> of_int (2 ^ nat (k - e + 52))" by (simp only: of_int_le_iff)
  then have "of_int \<bar>n\<bar> * u \<le> of_int (2 ^ nat (k - e + 52)) * u"
    using u by (intro mult_right_mono) simp_all
  also have "of_int (2 ^ nat (k - e + 52)) * u = pow2 k" using ku u by (simp add: field_simps)
  finally have bound: "\<bar>r\<bar> \<le> pow2 k" unfolding r_def using u by (simp add: abs_mult)
  have "\<bar>r\<bar> \<le> pow2 (e + 1)" using rnd(3) .
  also have "pow2 (e + 1) < pow2 1024" using ek assms(3) by (intro pow2_less) simp
  finally have "\<not> pow2 1024 \<le> \<bar>r\<bar>" by simp
  then have val: "fl64 x = Num r"
    using fl64_unfold [OF False] unfolding r_def n_def u_def e_def by simp
  have "0 \<le> r" if "0 \<le> x"
    unfolding r_def using rnd(4) [OF that] u by simp
  with val err bound show ?thesis by (rule that)
qed

lemma fl64_zero: "fl64 0 = Num 0"
  by (simp add: fl64_def)

lemma is_multiple:
  assumes "b \<le> a"
  shows "\<exists>m. of_int n * pow2 a = of_int m * pow2 b"
proof -
  have "pow2 a = pow2 (a - b) * pow2 b" using pow2_add [of "a - b" b] by simp
  also have "pow2 (a - b) = of_int (2 ^ nat (a - b))" using assms by (intro pow2_int) simp
  finally have "of_int n * pow2 a = of_int (n * 2 ^ nat (a - b)) * pow2 b" by simp
  then show ?thesis ..
qed

text \<open>A rounded number is a number of binary64: rounding it again changes nothing.\<close>

lemma fl64_idem:
  assumes "fl64 x = Num r"
  shows "fl64 r = Num r"
proof (cases "x = 0 \<or> r = 0")
  case True
  then show ?thesis using assms by (auto simp: fl64_def)
next
  case False
  then have x: "x \<noteq> 0" and r: "r \<noteq> 0" by simp_all
  define e where "e = max (exponent x) (- 1022)"
  define n where "n = round_even (x / pow2 (e - 52))"
  note rnd = fl64_round [OF x, folded e_def, folded n_def]
  have fin: "\<not> pow2 1024 \<le> \<bar>of_int n * pow2 (e - 52)\<bar>" and rn: "r = of_int n * pow2 (e - 52)"
    using assms fl64_unfold [OF x] unfolding n_def e_def by (auto split: if_splits)
  define e' where "e' = max (exponent r) (- 1022)"
  have "pow2 (exponent r) \<le> \<bar>r\<bar>" using r by (rule exponent_bounds)
  also have "\<bar>r\<bar> \<le> pow2 (e + 1)" using rnd(3) unfolding rn .
  finally have "exponent r \<le> e + 1" by (simp only: pow2_le_iff)
  then have e': "e' \<le> e + 1" unfolding e'_def e_def by simp
  have "\<exists>m. r = of_int m * pow2 (e' - 52)"
  proof (cases "e' \<le> e")
    case True
    then show ?thesis unfolding rn by (intro is_multiple) simp
  next
    case False
    with e' have eq: "e' = e + 1" by simp
    have "- 1022 \<le> e" unfolding e_def by simp
    with eq have "e' = exponent r" unfolding e'_def by simp
    then have "pow2 (e + 1) \<le> \<bar>r\<bar>" using exponent_bounds(1) [OF r] eq by simp
    with rnd(3) have "\<bar>r\<bar> = pow2 (e + 1)" unfolding rn by simp
    also have "pow2 (e + 1) = pow2 52 * pow2 (e' - 52)"
      using pow2_add [of 52 "e' - 52"] eq by (simp add: add.commute)
    also have "pow2 52 = of_int (2 ^ 52)" by (simp add: pow2_def)
    finally have "r = of_int (2 ^ 52) * pow2 (e' - 52) \<or> r = of_int (- (2 ^ 52)) * pow2 (e' - 52)"
      by (cases "0 \<le> r") simp_all
    then show ?thesis by blast
  qed
  then obtain m where m: "r = of_int m * pow2 (e' - 52)" ..
  have "r / pow2 (e' - 52) = of_int m" using m pow2_pos [of "e' - 52"] by simp
  then have "of_int (round_even (r / pow2 (e' - 52))) * pow2 (e' - 52) = r"
    using m by (simp add: round_even_int)
  then show ?thesis
    using fl64_unfold [OF r] fin unfolding e'_def [symmetric] rn [symmetric] by simp
qed

text \<open>Rounding a given number, from its exponent and the nearest multiple of the unit.\<close>

lemma fl64_eval:
  assumes "pow2 e \<le> \<bar>x\<bar>" "\<bar>x\<bar> < pow2 (e + 1)" "- 1022 \<le> e" "e \<le> 1022"
    and "round_even (x / pow2 (e - 52)) = n"
  shows "fl64 x = Num (of_int n * pow2 (e - 52))"
proof -
  have x: "x \<noteq> 0" using assms(1) pow2_pos [of e] by auto
  have ex: "max (exponent x) (- 1022) = e"
    using exponent_eq [OF assms(1,2)] assms(3) by simp
  note rnd = fl64_round [OF x, unfolded ex assms(5)]
  have "pow2 (e + 1) < pow2 1024" using assms(4) by (intro pow2_less) simp
  with rnd(3) have "\<not> pow2 1024 \<le> \<bar>of_int n * pow2 (e - 52)\<bar>" by simp
  then show ?thesis using fl64_unfold [OF x] unfolding ex assms(5) by simp
qed

lemma fl64_one: "fl64 1 = Num 1"
  using fl64_eval [of 0 1 "2 ^ 52"] by (simp add: pow2_def round_even_def)

section \<open>The alarm rule\<close>

text \<open>
  C1. The alarm state of every pair of distances is the first match of the four-way
  rule: a distance to the destination of at most 2 gives the alarm; otherwise a distance
  to the previous station of at most 0.5 gives the pre-alert; otherwise a distance to the
  destination of at most 15 gives approaching; otherwise the state is safe. The four
  cases exclude each other and cover every pair, NaN and the infinities included.
\<close>

theorem getAlarmState_priority_rule:
  "(js_le d (Num 2) \<longrightarrow> getAlarmState d p = Alarm) \<and>
   (\<not> js_le d (Num 2) \<and> js_le p (Num (1 / 2)) \<longrightarrow> getAlarmState d p = PreAlert) \<and>
   (\<not> js_le d (Num 2) \<and> \<not> js_le p (Num (1 / 2)) \<and> js_le d (Num 15)
      \<longrightarrow> getAlarmState d p = Approaching) \<and>
   (\<not> js_le d (Num 2) \<and> \<not> js_le p (Num (1 / 2)) \<and> \<not> js_le d (Num 15)
      \<longrightarrow> getAlarmState d p = Safe)"
  by (simp add: getAlarmState_def)

theorem getAlarmState_priority_rule_witness:
  "getAlarmState (Num 2) (Num 0) = Alarm \<and>
   getAlarmState (Num 3) (Num (1 / 2)) = PreAlert \<and>
   getAlarmState (Num 15) (Num 1) = Approaching \<and>
   getAlarmState (Num 16) NaN = Safe"
  using getAlarmState_priority_rule [of "Num 2" "Num 0"]
    getAlarmState_priority_rule [of "Num 3" "Num (1 / 2)"]
    getAlarmState_priority_rule [of "Num 15" "Num 1"]
    getAlarmState_priority_rule [of "Num 16" NaN]
  by simp

section \<open>Missing coordinates\<close>

text \<open>
  C2, as stated, fails: a missing coordinate does give the infinite distance, but the
  alarm rule reads two distances, and an infinite distance to the destination next to a
  distance of 0.3 km to the previous station gives the pre-alert, not safe.
\<close>

theorem missing_coordinate_not_safe_counterexample:
  "calculateDistance fl64 math64 Null (Number (Num 80)) (Number (Num 12)) (Number (Num 79)) = PosInf \<and>
   getAlarmState
     (calculateDistance fl64 math64 Null (Number (Num 80)) (Number (Num 12)) (Number (Num 79)))
     (Num (3 / 10)) = PreAlert"
  by (simp add: calculateDistance_def getAlarmState_def)

text \<open>
  C2, amended. A quadruple with a missing value has the infinite distance, whatever the
  arithmetic and the Math object. An infinite
  distance meets no threshold: with both distances infinite the state is safe; with an
  infinite distance to the destination the state is the pre-alert when the distance to
  the previous station is at most 0.5 and safe otherwise; with an infinite distance to
  the previous station the state is decided by the distance to the destination alone.
\<close>

theorem missing_coordinate_infinite_distance:
  "(eq_null lat1 \<or> eq_null lon1 \<or> eq_null lat2 \<or> eq_null lon2
      \<longrightarrow> calculateDistance fl m lat1 lon1 lat2 lon2 = PosInf) \<and>
   getAlarmState PosInf PosInf = Safe \<and>
   getAlarmState PosInf p = (if js_le p (Num (1 / 2)) then PreAlert else Safe) \<and>
   getAlarmState d PosInf =
     (if js_le d (Num 2) then Alarm else if js_le d (Num 15) then Approaching else Safe)"
  by (simp add: calculateDistance_def getAlarmState_def)

theorem missing_coordinate_infinite_distance_witness:
  "calculateDistance fl64 math64 (Number (Num 13)) Undefined (Number (Num 12)) (Number (Num 79)) = PosInf \<and>
   getAlarmState PosInf PosInf = Safe \<and>
   getAlarmState PosInf (Num 1) = Safe \<and>
   getAlarmState (Num 20) PosInf = Safe"
  using missing_coordinate_infinite_distance
    [of "Number (Num 13)" Undefined "Number (Num 12)" "Number (Num 79)" fl64 math64 "Num 1" "Num 20"]
  by simp

section \<open>Adaptive accuracy\<close>

text \<open>
  C4. For every distance to the destination the live watch is registered with the
  high-accuracy options (maximumAge 5000 ms, timeout 10000 ms, enableHighAccuracy true)
  exactly when the distance is below 50 km, and with the low-accuracy options
  (maximumAge 60000 ms, timeout 30000 ms, enableHighAccuracy false) otherwise.
\<close>

theorem useGeolocation_adaptive_accuracy:
  "useGeolocation True (Number d) True =
     Some (Watch (if js_lt d (Num 50)
                  then \<lparr>enableHighAccuracy = True, timeout = 10000, maximumAge = 5000\<rparr>
                  else \<lparr>enableHighAccuracy = False, timeout = 30000, maximumAge = 60000\<rparr>))"
  by (simp add: useGeolocation_def startWatching_def HIGH_ACCURACY_OPTIONS_def
      LOW_ACCURACY_OPTIONS_def)

section \<open>Symmetry of the distance\<close>




















section \<open>The distance in exact arithmetic\<close>

text \<open>The haversine term lies between 0 and 1, so that both square roots exist.\<close>

lemma cos_ge_quadratic: "1 - x\<^sup>2 / 2 \<le> cos x" for x :: real
proof -
  have "(sin (x / 2))\<^sup>2 \<le> (x / 2)\<^sup>2"
    using abs_sin_x_le_abs_x [of "x / 2"] by (simp only: abs_le_square_iff)
  then show ?thesis
    using cos_double_sin [of "x / 2"] by (simp add: power_divide)
qed

lemma hav_range: "0 \<le> hav lat1 lon1 lat2 lon2" "hav lat1 lon1 lat2 lon2 \<le> 1"
proof -
  define x where "x = lat1 * (pi / 180)"
  define y where "y = lat2 * (pi / 180)"
  define s where "s = (sin ((y - x) / 2))\<^sup>2"
  define t where "t = (sin ((lon2 - lon1) * (pi / 180) / 2))\<^sup>2"
  define C where "C = cos x * cos y"
  have h: "hav lat1 lon1 lat2 lon2 = s + C * t"
  proof -
    have "(lat2 - lat1) * (pi / 180) / 2 = (y - x) / 2"
      by (simp add: x_def y_def left_diff_distrib)
    then show ?thesis
      by (simp only: hav_def s_def t_def C_def x_def [symmetric] y_def [symmetric])
  qed
  have s01: "0 \<le> s" "s \<le> 1" and t01: "0 \<le> t" "t \<le> 1"
    by (simp_all add: s_def t_def abs_square_le_1)
  have "cos (2 * ((y - x) / 2)) = 1 - 2 * s"
    unfolding s_def by (rule cos_double_sin)
  moreover have "2 * ((y - x) / 2) = y - x" by simp
  ultimately have "cos (y - x) = 1 - 2 * s" by (simp only:)
  moreover have "C = (cos (x - y) + cos (x + y)) / 2"
    unfolding C_def by (rule cos_times_cos)
  moreover have "cos (x - y) = cos (y - x)"
    using cos_minus [of "y - x"] by simp
  ultimately have C: "2 * C = 1 - 2 * s + cos (x + y)" by simp
  have Clo: "- s \<le> C"
    using cos_ge_minus_one [of "x + y"] C by linarith
  have Chi: "C \<le> 1 - s"
    using cos_le_one [of "x + y"] C by linarith
  have "(- s) * t \<le> C * t" using Clo t01(1) by (rule mult_right_mono)
  moreover have "s * t \<le> s * 1" using t01(2) s01(1) by (rule mult_left_mono)
  ultimately show "0 \<le> hav lat1 lon1 lat2 lon2" unfolding h by simp
  have "C * t \<le> (1 - s) * t" using Chi t01(1) by (rule mult_right_mono)
  moreover have "(1 - s) * t \<le> (1 - s) * 1" using t01(2) s01(2) by (intro mult_left_mono) simp_all
  ultimately show "hav lat1 lon1 lat2 lon2 \<le> 1" unfolding h by simp
qed

text \<open>
  Without rounding and with the exact functions the distance between two finite points
  is the haversine formula itself.
\<close>

lemma calculateDistance_finite:
  "calculateDistance exact_fl exact_math
       (Number (Num lat1)) (Number (Num lon1)) (Number (Num lat2)) (Number (Num lon2)) =
     Num (6371 * (2 * (if hav lat1 lon1 lat2 lon2 < 1
                       then arctan (sqrt (hav lat1 lon1 lat2 lon2) / sqrt (1 - hav lat1 lon1 lat2 lon2))
                       else pi / 2)))"
proof -
  let ?fl = exact_fl and ?m = exact_math
  have a: "js_add ?fl
      (js_mul ?fl (Math_sin ?m (js_div ?fl (toRadians ?fl ?m (js_sub ?fl (Num lat2) (Num lat1))) (Num 2)))
              (Math_sin ?m (js_div ?fl (toRadians ?fl ?m (js_sub ?fl (Num lat2) (Num lat1))) (Num 2))))
      (js_mul ?fl (js_mul ?fl (js_mul ?fl (Math_cos ?m (toRadians ?fl ?m (Num lat1)))
                                           (Math_cos ?m (toRadians ?fl ?m (Num lat2))))
                 (Math_sin ?m (js_div ?fl (toRadians ?fl ?m (js_sub ?fl (Num lon2) (Num lon1))) (Num 2))))
              (Math_sin ?m (js_div ?fl (toRadians ?fl ?m (js_sub ?fl (Num lon2) (Num lon1))) (Num 2))))
     = Num (hav lat1 lon1 lat2 lon2)"
    by (simp add: toRadians_def exact_fl_def exact_math_def rounded_math_def js_sub_def hav_def
        power2_eq_square algebra_simps)
  have step: "calculateDistance ?fl ?m
        (Number (Num lat1)) (Number (Num lon1)) (Number (Num lat2)) (Number (Num lon2)) =
      js_mul ?fl EARTH_RADIUS_KM (js_mul ?fl (Num 2)
        (Math_atan2 ?m (Math_sqrt ?m (Num (hav lat1 lon1 lat2 lon2)))
           (Math_sqrt ?m (js_sub ?fl (Num 1) (Num (hav lat1 lon1 lat2 lon2))))))"
    by (simp only: calculateDistance_def Let_def eq_null.simps ToNumber.simps a simp_thms if_False)
  show ?thesis
  proof (cases "hav lat1 lon1 lat2 lon2 < 1")
    case True
    then show ?thesis
      unfolding step using hav_range(1) [of lat1 lon1 lat2 lon2]
      by (simp add: js_sub_def EARTH_RADIUS_KM_def exact_fl_def exact_math_def rounded_math_def)
  next
    case False
    then have "hav lat1 lon1 lat2 lon2 = 1"
      using hav_range(2) [of lat1 lon1 lat2 lon2] by simp
    then show ?thesis
      unfolding step
      by (simp add: js_sub_def EARTH_RADIUS_KM_def exact_fl_def exact_math_def rounded_math_def)
  qed
qed

section \<open>The distance from Chennai Central to Villupuram Junction\<close>

text \<open>Bounds on the sine from its Maclaurin polynomials, and on \<open>\<pi>\<close> from \<open>sin (\<pi> / 6) = 1 / 2\<close>.\<close>

lemma sum_upto7: "(\<Sum>m<7. f m) = f 0 + f 1 + f 2 + f 3 + f 4 + f 5 + (f (6::nat) :: real)"
  by (simp add: eval_nat_numeral)

lemma sin_coeff_vals:
  "sin_coeff 0 = 0" "sin_coeff 1 = 1" "sin_coeff (Suc 0) = 1" "sin_coeff 2 = 0" "sin_coeff 3 = - 1 / 6"
  "sin_coeff 4 = 0" "sin_coeff 5 = 1 / 120" "sin_coeff 6 = 0"
  by (simp_all add: sin_coeff_def fact_numeral)

lemma sin_near7:
  "\<bar>sin x - (x - x ^ 3 / 6 + x ^ 5 / 120)\<bar> \<le> \<bar>x\<bar> ^ 7 / 5040" for x :: real
  using Maclaurin_sin_bound [of x 7]
  by (simp add: sum_upto7 sin_coeff_vals fact_numeral)

lemma sum_upto5: "(\<Sum>m<5. f m) = f 0 + f 1 + f 2 + f 3 + (f (4::nat) :: real)"
  by (simp add: eval_nat_numeral)

lemma sum_upto3: "(\<Sum>m<3. f m) = f 0 + f 1 + (f (2::nat) :: real)"
  by (simp add: eval_nat_numeral)

lemma sin_near5:
  "\<bar>sin x - (x - x ^ 3 / 6)\<bar> \<le> \<bar>x\<bar> ^ 5 / 120" for x :: real
  using Maclaurin_sin_bound [of x 5]
  by (simp add: sum_upto5 sin_coeff_vals fact_numeral)

lemma sin_near3:
  "\<bar>sin x - x\<bar> \<le> \<bar>x\<bar> ^ 3 / 6" for x :: real
  using Maclaurin_sin_bound [of x 3]
  by (simp add: sum_upto3 sin_coeff_vals fact_numeral)

lemma sin_lower3:
  assumes "0 \<le> x" shows "x - x ^ 3 / 6 \<le> sin (x::real)"
  using sin_near3 [of x] unfolding abs_of_nonneg [OF assms] by linarith

lemma sin_upper5:
  assumes "0 \<le> x" shows "sin (x::real) \<le> x - x ^ 3 / 6 + x ^ 5 / 120"
  using sin_near5 [of x] unfolding abs_of_nonneg [OF assms] by linarith

lemma sin_lower7:
  assumes "0 \<le> x" shows "x - x ^ 3 / 6 + x ^ 5 / 120 - x ^ 7 / 5040 \<le> sin (x::real)"
  using sin_near7 [of x] unfolding abs_of_nonneg [OF assms] by linarith

lemma pi_lower: "3.141 < pi"
proof -
  have "sin (0.5235::real) \<le> 0.5235 - 0.5235 ^ 3 / 6 + 0.5235 ^ 5 / 120"
    by (rule sin_upper5) simp
  also have "\<dots> < 1 / 2" by (simp add: power_divide)
  finally have less: "sin (0.5235::real) < sin (pi / 6)" by (simp add: sin_30)
  have "\<not> pi / 6 \<le> 0.5235"
  proof
    assume le: "pi / 6 \<le> 0.5235"
    have "sin (pi / 6) \<le> sin (0.5235::real)"
      by (rule sin_monotone_2pi_le) (use le pi_ge_two in simp_all)
    with less show False by simp
  qed
  then show ?thesis by simp
qed

lemma pi_upper: "pi < 3.1422"
proof -
  have "(1::real) / 2 < 0.5237 - 0.5237 ^ 3 / 6 + 0.5237 ^ 5 / 120 - 0.5237 ^ 7 / 5040"
    by (simp add: power_divide)
  also have "\<dots> \<le> sin (0.5237::real)"
    by (rule sin_lower7) simp
  finally have less: "sin (pi / 6) < sin (0.5237::real)" by (simp add: sin_30)
  have "\<not> 0.5237 \<le> pi / 6"
  proof
    assume le: "0.5237 \<le> pi / 6"
    have "sin (0.5237::real) \<le> sin (pi / 6)"
      by (rule sin_monotone_2pi_le) (use le pi_gt_zero in simp_all)
    with less show False by simp
  qed
  then show ?thesis by simp
qed

lemma sin_sq_interval:
  fixes x :: real
  assumes "0 \<le> l" "l \<le> x" "x \<le> h" "h ^ 3 / 6 \<le> l"
  shows "(l - h ^ 3 / 6)\<^sup>2 \<le> (sin x)\<^sup>2" and "(sin x)\<^sup>2 \<le> h\<^sup>2"
proof -
  have x0: "0 \<le> x" using assms by linarith
  have "x ^ 3 \<le> h ^ 3" using assms(3) x0 by (rule power_mono)
  then have lo: "l - h ^ 3 / 6 \<le> sin x" using sin_lower3 [OF x0] assms(2) by linarith
  have nn: "0 \<le> l - h ^ 3 / 6" using assms(4) by simp
  show "(l - h ^ 3 / 6)\<^sup>2 \<le> (sin x)\<^sup>2" using lo nn by (rule power_mono)
  have "0 \<le> sin x" using lo nn by linarith
  moreover have "sin x \<le> h" using sin_x_le_x [OF x0] assms(3) by linarith
  ultimately show "(sin x)\<^sup>2 \<le> h\<^sup>2" by (rule power_mono [rotated])
qed

lemma cos_interval:
  fixes x :: real
  assumes "0 \<le> l" "l \<le> x" "x \<le> h" "(h / 2) ^ 3 / 6 \<le> l / 2"
  shows "1 - 2 * (h / 2)\<^sup>2 \<le> cos x" and "cos x \<le> 1 - 2 * (l / 2 - (h / 2) ^ 3 / 6)\<^sup>2"
proof -
  have c: "cos x = 1 - 2 * (sin (x / 2))\<^sup>2"
    using cos_double_sin [of "x / 2"] by simp
  have "(l / 2 - (h / 2) ^ 3 / 6)\<^sup>2 \<le> (sin (x / 2))\<^sup>2" and "(sin (x / 2))\<^sup>2 \<le> (h / 2)\<^sup>2"
    using sin_sq_interval [of "l / 2" "x / 2" "h / 2"] assms by simp_all
  then show "1 - 2 * (h / 2)\<^sup>2 \<le> cos x" and "cos x \<le> 1 - 2 * (l / 2 - (h / 2) ^ 3 / 6)\<^sup>2"
    unfolding c by linarith+
qed

lemma arctan_lower_bound:
  fixes y z :: real
  assumes "0 \<le> y" "y \<le> 1" "y / (1 - y\<^sup>2 / 2) \<le> z"
  shows "y \<le> arctan z"
proof -
  have "y\<^sup>2 \<le> 1" using assms(1,2) by (simp add: power_le_one)
  then have pos: "0 < 1 - y\<^sup>2 / 2" by simp
  have "tan y = sin y / cos y" by (simp add: tan_def)
  also have "\<dots> \<le> y / (1 - y\<^sup>2 / 2)"
    using assms(1) sin_x_le_x [OF assms(1)] pos cos_ge_quadratic [of y] by (rule frac_le)
  finally have "tan y \<le> z" using assms(3) by simp
  then have "arctan (tan y) \<le> arctan z" by (rule arctan_monotone')
  moreover have "arctan (tan y) = y"
    using assms(1,2) pi_lower by (intro arctan_tan) simp_all
  ultimately show ?thesis by simp
qed

lemma arctan_upper_bound:
  fixes y z :: real
  assumes "0 \<le> y" "y \<le> 1" "z \<le> y - y ^ 3 / 6"
  shows "arctan z \<le> y"
proof -
  have half: "y < pi / 2" using assms(2) pi_lower by simp
  have c0: "0 < cos y" using assms(1) half by (intro cos_gt_zero_pi) simp_all
  have s0: "0 \<le> sin y" using assms(1) half by (intro sin_ge_zero) simp_all
  have "sin y * cos y \<le> sin y * 1"
    using s0 by (intro mult_left_mono) simp_all
  then have "sin y \<le> tan y"
    using c0 by (simp add: tan_def pos_le_divide_eq)
  then have "z \<le> tan y" using sin_lower3 [OF assms(1)] assms(3) by linarith
  then have "arctan z \<le> arctan (tan y)" by (rule arctan_monotone')
  moreover have "arctan (tan y) = y"
    using assms(1) half by (intro arctan_tan) simp_all
  ultimately show ?thesis by simp
qed

lemma mult3_mono:
  fixes a b c :: real
  assumes "a' \<le> a" "b' \<le> b" "c' \<le> c" "0 \<le> a'" "0 \<le> b'" "0 \<le> c'"
  shows "a' * b' * c' \<le> a * b * c"
proof -
  have "a' * b' \<le> a * b" using assms by (intro mult_mono) simp_all
  moreover have "0 \<le> a * b" using assms by (intro mult_nonneg_nonneg) linarith+
  ultimately show ?thesis using assms by (intro mult_mono) simp_all
qed

lemma chennai_villupuram_hav:
  "0.000143452 \<le> hav 13.0827 80.2707 11.9393 79.4924"
  "hav 13.0827 80.2707 11.9393 79.4924 \<le> 0.000143581"
proof -
  define u :: real where "u = pi * (5717 / 1800000)"
  define v :: real where "v = pi * (7783 / 3600000)"
  define p1 :: real where "p1 = pi * (130827 / 1800000)"
  define p2 :: real where "p2 = pi * (119393 / 1800000)"
  have args: "(11.9393 - 13.0827) * (pi / 180) / 2 = - u"
    "(79.4924 - 80.2707) * (pi / 180) / 2 = - v"
    "13.0827 * (pi / 180) = p1" "11.9393 * (pi / 180) = p2"
    by (simp_all add: u_def v_def p1_def p2_def)
  have h: "hav 13.0827 80.2707 11.9393 79.4924 = (sin u)\<^sup>2 + cos p1 * cos p2 * (sin v)\<^sup>2"
    unfolding hav_def args by simp
  have u: "0.0099761 \<le> u" "u \<le> 0.00998"
    and v: "0.0067906 \<le> v" "v \<le> 0.0067933"
    and p1: "0.228293 \<le> p1" "p1 \<le> 0.228381"
    and p2: "0.20834 \<le> p2" "p2 \<le> 0.208421"
    using pi_lower pi_upper unfolding u_def v_def p1_def p2_def by simp_all
  have su: "0.0000995192 \<le> (sin u)\<^sup>2" "(sin u)\<^sup>2 \<le> 0.0000996004"
  proof -
    have "(0.0099761 - 0.00998 ^ 3 / 6)\<^sup>2 \<le> (sin u)\<^sup>2" and "(sin u)\<^sup>2 \<le> 0.00998\<^sup>2"
      using sin_sq_interval [where l = "0.0099761" and x = u and h = "0.00998"] u by (simp_all add: power_divide)
    then show "0.0000995192 \<le> (sin u)\<^sup>2" "(sin u)\<^sup>2 \<le> 0.0000996004"
      by (simp_all add: power_divide)
  qed
  have sv: "0.0000461115 \<le> (sin v)\<^sup>2" "(sin v)\<^sup>2 \<le> 0.000046149"
  proof -
    have "(0.0067906 - 0.0067933 ^ 3 / 6)\<^sup>2 \<le> (sin v)\<^sup>2" and "(sin v)\<^sup>2 \<le> 0.0067933\<^sup>2"
      using sin_sq_interval [where l = "0.0067906" and x = v and h = "0.0067933"] v by (simp_all add: power_divide)
    then show "0.0000461115 \<le> (sin v)\<^sup>2" "(sin v)\<^sup>2 \<le> 0.000046149"
      by (simp_all add: power_divide)
  qed
  have c1: "0.973921 \<le> cos p1" "cos p1 \<le> 0.974055"
  proof -
    have "1 - 2 * (0.228381 / 2)\<^sup>2 \<le> cos p1"
      and "cos p1 \<le> 1 - 2 * (0.228293 / 2 - (0.228381 / 2) ^ 3 / 6)\<^sup>2"
      using cos_interval [where l = "0.228293" and x = p1 and h = "0.228381"] p1 by (simp_all add: power_divide)
    then show "0.973921 \<le> cos p1" "cos p1 \<le> 0.974055"
      by (simp_all add: power_divide)
  qed
  have c2: "0.97828 \<le> cos p2" "cos p2 \<le> 0.978376"
  proof -
    have "1 - 2 * (0.208421 / 2)\<^sup>2 \<le> cos p2"
      and "cos p2 \<le> 1 - 2 * (0.20834 / 2 - (0.208421 / 2) ^ 3 / 6)\<^sup>2"
      using cos_interval [where l = "0.20834" and x = p2 and h = "0.208421"] p2 by (simp_all add: power_divide)
    then show "0.97828 \<le> cos p2" "cos p2 \<le> 0.978376"
      by (simp_all add: power_divide)
  qed
  have "0.973921 * 0.97828 * 0.0000461115 \<le> cos p1 * cos p2 * (sin v)\<^sup>2"
    using c1(1) c2(1) sv(1) by (rule mult3_mono) simp_all
  then show "0.000143452 \<le> hav 13.0827 80.2707 11.9393 79.4924"
    unfolding h using su(1) by simp
  have "cos p1 * cos p2 * (sin v)\<^sup>2 \<le> 0.974055 * 0.978376 * 0.000046149"
    using c1 c2 sv by (intro mult3_mono) simp_all
  then show "hav 13.0827 80.2707 11.9393 79.4924 \<le> 0.000143581"
    unfolding h using su(2) by simp
qed

lemma chennai_villupuram_distance:
  obtains d where
    "calculateDistance exact_fl exact_math (Number (Num 13.0827)) (Number (Num 80.2707))
       (Number (Num 11.9393)) (Number (Num 79.4924)) = Num d"
    "152.5 \<le> d" "d \<le> 152.8"
proof -
  define A where "A = hav 13.0827 80.2707 11.9393 79.4924"
  define z where "z = sqrt A / sqrt (1 - A)"
  have A: "0.000143452 \<le> A" "A \<le> 0.000143581"
    unfolding A_def by (rule chennai_villupuram_hav)+
  have A1: "A < 1" using A(2) by simp
  have eq: "calculateDistance exact_fl exact_math (Number (Num 13.0827)) (Number (Num 80.2707))
       (Number (Num 11.9393)) (Number (Num 79.4924)) = Num (6371 * (2 * arctan z))"
    using A1 unfolding z_def A_def by (simp only: calculateDistance_finite if_True)
  have "0.011977\<^sup>2 \<le> A" using A(1) by (simp add: power_divide)
  then have lo: "0.011977 \<le> sqrt A" by (rule real_le_rsqrt)
  have "sqrt (1 - A) \<le> 1" using A(1) by simp
  moreover have "0 < sqrt (1 - A)" using A1 by simp
  moreover have "0 \<le> sqrt A" using A(1) by simp
  ultimately have "sqrt A \<le> z"
    unfolding z_def by (simp add: pos_le_divide_eq mult_left_le)
  with lo have zlo: "0.011977 \<le> z" by simp
  have "A / (1 - A) \<le> 0.000143581 / (1 - 0.000143581)"
    using A by (intro frac_le) simp_all
  also have "\<dots> \<le> 0.011984\<^sup>2" by (simp add: power_divide)
  finally have "sqrt (A / (1 - A)) \<le> 0.011984" by (intro real_le_lsqrt) simp_all
  then have zhi: "z \<le> 0.011984" unfolding z_def by (simp add: real_sqrt_divide)
  have "0.011969 \<le> arctan z"
    using zlo by (intro arctan_lower_bound) (simp_all add: power_divide)
  moreover have "arctan z \<le> 0.01199"
    using zhi by (intro arctan_upper_bound) (simp_all add: power_divide)
  ultimately have "152.5 \<le> 6371 * (2 * arctan z)" "6371 * (2 * arctan z) \<le> 152.8"
    by simp_all
  with eq show ?thesis by (rule that)
qed

text \<open>
  C8, as stated, fails: the distance between Chennai Central and Villupuram Junction is
  not within 1 km of 137 km.
\<close>

theorem chennai_villupuram_not_137_counterexample: "\<not> within_km
     (calculateDistance exact_fl exact_math (Number (Num 13.0827)) (Number (Num 80.2707))
        (Number (Num 11.9393)) (Number (Num 79.4924))) 137 1"
  by (rule chennai_villupuram_distance) (simp add: within_km_def)

text \<open>
  C8, amended. \<open>calculateDistance\<close> applied to Chennai Central (13.0827, 80.2707)
  and Villupuram Junction (11.9393, 79.4924) yields a value within 1 km of 153 km (it lies
  between 152.5 and 152.8 km), by the haversine formula with the Earth radius 6371 km on
  the inputs converted from degrees to radians.
\<close>

theorem chennai_villupuram_153:
  "within_km
     (calculateDistance exact_fl exact_math (Number (Num 13.0827)) (Number (Num 80.2707))
        (Number (Num 11.9393)) (Number (Num 79.4924))) 153 1 \<and>
   calculateDistance exact_fl exact_math (Number (Num 13.0827)) (Number (Num 80.2707))
        (Number (Num 11.9393)) (Number (Num 79.4924)) =
     Num (6371 * (2 * arctan (sqrt (hav 13.0827 80.2707 11.9393 79.4924) /
                              sqrt (1 - hav 13.0827 80.2707 11.9393 79.4924))))"
proof
  show "within_km
     (calculateDistance exact_fl exact_math (Number (Num 13.0827)) (Number (Num 80.2707))
        (Number (Num 11.9393)) (Number (Num 79.4924))) 153 1"
    by (rule chennai_villupuram_distance) (simp add: within_km_def abs_le_iff)
  have "hav 13.0827 80.2707 11.9393 79.4924 < 1"
    using chennai_villupuram_hav(2) by simp
  then show "calculateDistance exact_fl exact_math (Number (Num 13.0827)) (Number (Num 80.2707))
        (Number (Num 11.9393)) (Number (Num 79.4924)) =
     Num (6371 * (2 * arctan (sqrt (hav 13.0827 80.2707 11.9393 79.4924) /
                              sqrt (1 - hav 13.0827 80.2707 11.9393 79.4924))))"
    by (simp only: calculateDistance_finite if_True)
qed

section \<open>Playback along the stations\<close>

lemma placedE:
  assumes "placed s"
  obtains a b where "latitude s = Number (Num a)" "a \<noteq> 0" "binary64 a" "\<bar>a\<bar> \<le> 180"
    "longitude s = Number (Num b)" "binary64 b" "\<bar>b\<bar> \<le> 180"
proof -
  from assms have f: "degrees (latitude s)" "degrees (longitude s)" "ToNumber (latitude s) \<noteq> Num 0"
    by (simp_all add: placed_def)
  from f(1) obtain a where a: "latitude s = Number (Num a)" "binary64 a" "\<bar>a\<bar> \<le> 180"
    by (cases "latitude s" rule: degrees.cases) simp_all
  from f(2) obtain b where b: "longitude s = Number (Num b)" "binary64 b" "\<bar>b\<bar> \<le> 180"
    by (cases "longitude s" rule: degrees.cases) simp_all
  from f(3) a(1) have "a \<noteq> 0" by simp
  with a b show ?thesis using that by blast
qed

lemma placed_truthy: "placed s \<Longrightarrow> ToBoolean (latitude s)"
  by (erule placedE) simp

text \<open>The first sample of a segment: \<open>t = 0\<close>, and the start is left as it is.\<close>

lemma depart:
  assumes "binary64 a" "\<bar>a\<bar> \<le> 180" "\<bar>b\<bar> \<le> 180"
  shows "js_add fl64 (Num a) (js_mul fl64 (js_sub fl64 (Num b) (Num a)) (js_div fl64 (Num 0) (Num 100)))
    = Num a"
proof -
  have "\<bar>b - a\<bar> < pow2 9" using assms(2,3) by (simp add: pow2_def)
  then obtain r where "fl64 (b - a) = Num r" by (rule fl64_accurate) simp_all
  then show ?thesis using assms(1) by (simp add: js_sub_def fl64_zero binary64_def)
qed

text \<open>
  The last sample of a segment: \<open>t = 1\<close>, so the sample is the start plus the rounded
  difference, rounded again.
\<close>

lemma arrive:
  assumes "binary64 b" "\<bar>a\<bar> \<le> 180" "\<bar>b\<bar> \<le> 180"
  obtains q where
    "js_add fl64 (Num a) (js_mul fl64 (js_sub fl64 (Num b) (Num a)) (js_div fl64 (Num 100) (Num 100)))
       = Num q"
    "\<bar>q - b\<bar> \<le> 1 / 2 ^ 44" "binary64 (b - a) \<Longrightarrow> q = b"
proof -
  have "\<bar>b - a\<bar> < pow2 9" using assms(2,3) by (simp add: pow2_def)
  then obtain r where r: "fl64 (b - a) = Num r" "\<bar>r - (b - a)\<bar> \<le> pow2 (9 - 54)"
    by (rule fl64_accurate) simp_all
  have r45: "\<bar>r - (b - a)\<bar> \<le> 1 / 2 ^ 45" using r(2) by (simp add: pow2_def)
  have "\<bar>a + r\<bar> \<le> \<bar>b\<bar> + \<bar>r - (b - a)\<bar>" by linarith
  moreover have "(1::real) / 2 ^ 45 \<le> 1" by simp
  ultimately have "\<bar>a + r\<bar> < 256" using r45 assms(3) by linarith
  then have "\<bar>a + r\<bar> < pow2 8" by (simp add: pow2_def)
  then obtain q where q: "fl64 (a + r) = Num q" "\<bar>q - (a + r)\<bar> \<le> pow2 (8 - 54)"
    by (rule fl64_accurate) simp_all
  have q46: "\<bar>q - (a + r)\<bar> \<le> 1 / 2 ^ 46" using q(2) by (simp add: pow2_def)
  have val: "js_add fl64 (Num a) (js_mul fl64 (js_sub fl64 (Num b) (Num a)) (js_div fl64 (Num 100) (Num 100)))
      = Num q"
    using r(1) q(1) fl64_idem [OF r(1)] by (simp add: js_sub_def fl64_one)
  have "\<bar>q - b\<bar> \<le> 1 / 2 ^ 45 + 1 / 2 ^ 46" using r45 q46 by linarith
  also have "\<dots> \<le> 1 / 2 ^ 44" by simp
  finally have err: "\<bar>q - b\<bar> \<le> 1 / 2 ^ 44" .
  have "q = b" if "binary64 (b - a)"
  proof -
    from that r(1) have "r = b - a" by (simp add: binary64_def)
    with q(1) assms(1) show ?thesis by (simp add: binary64_def)
  qed
  with val err show ?thesis by (rule that)
qed

lemma interpolated_start:
  assumes "placed a" "placed b"
  shows "interpolated fl64 a b 0 = station_position a"
proof -
  from assms(1) obtain x y where a: "latitude a = Number (Num x)" "binary64 x" "\<bar>x\<bar> \<le> 180"
    "longitude a = Number (Num y)" "binary64 y" "\<bar>y\<bar> \<le> 180"
    by (rule placedE)
  from assms(2) obtain x' y' where b: "latitude b = Number (Num x')" "\<bar>x'\<bar> \<le> 180"
    "longitude b = Number (Num y')" "\<bar>y'\<bar> \<le> 180"
    by (rule placedE)
  show ?thesis
    unfolding interpolated_def station_position_def Let_def a(1,4) b(1,3) ToNumber.simps of_nat_0
    by (simp only: depart [OF a(2,3) b(2)] depart [OF a(5,6) b(4)])
qed

lemma interpolated_end:
  assumes "placed a" "placed b"
  shows "near (1 / 2 ^ 44) (interpolated fl64 a b 100) (station_position b)"
    and "exact_step a b \<Longrightarrow> interpolated fl64 a b 100 = station_position b"
proof -
  from assms(1) obtain x y where a: "latitude a = Number (Num x)" "\<bar>x\<bar> \<le> 180"
    "longitude a = Number (Num y)" "\<bar>y\<bar> \<le> 180"
    by (rule placedE)
  from assms(2) obtain x' y' where b: "latitude b = Number (Num x')" "binary64 x'" "\<bar>x'\<bar> \<le> 180"
    "longitude b = Number (Num y')" "binary64 y'" "\<bar>y'\<bar> \<le> 180"
    by (rule placedE)
  obtain p where p:
    "js_add fl64 (Num x) (js_mul fl64 (js_sub fl64 (Num x') (Num x)) (js_div fl64 (Num 100) (Num 100)))
       = Num p"
    "\<bar>p - x'\<bar> \<le> 1 / 2 ^ 44" "binary64 (x' - x) \<Longrightarrow> p = x'"
    by (rule arrive [OF b(2) a(2) b(3)]) (rule that)
  obtain q where q:
    "js_add fl64 (Num y) (js_mul fl64 (js_sub fl64 (Num y') (Num y)) (js_div fl64 (Num 100) (Num 100)))
       = Num q"
    "\<bar>q - y'\<bar> \<le> 1 / 2 ^ 44" "binary64 (y' - y) \<Longrightarrow> q = y'"
    by (rule arrive [OF b(5) a(4) b(6)]) (rule that)
  have val: "interpolated fl64 a b 100 = \<lparr>lat = Num p, lon = Num q\<rparr>"
    unfolding interpolated_def Let_def a(1,3) b(1,4) ToNumber.simps
    by (simp add: p(1) q(1) del: js_add.simps js_mul.simps js_div.simps)
  show "near (1 / 2 ^ 44) (interpolated fl64 a b 100) (station_position b)"
    unfolding val using p(2) q(2) by (simp add: near_def station_position_def b(1,4))
  show "interpolated fl64 a b 100 = station_position b" if "exact_step a b"
  proof -
    from that have "binary64 (x' - x)" "binary64 (y' - y)"
      by (simp_all add: exact_step_def a(1,3) b(1,4))
    then show ?thesis
      unfolding val using p(3) q(3) by (simp add: station_position_def b(1,4))
  qed
qed

text \<open>The ticks of a segment both of whose ends have a truthy latitude.\<close>

lemma tick_truthy:
  assumes "seg + 1 < length sts" "ToBoolean (latitude (sts ! seg))" "ToBoolean (latitude (sts ! (seg + 1)))"
  shows "tick fl sts (seg, step) =
     Emitted (interpolated fl (sts ! seg) (sts ! (seg + 1)) step)
       (if 100 \<le> step then (seg + 1, 0) else (seg, step + 1))"
  using assms by (auto simp: tick_def Let_def interpolated_def STEPS_PER_SEGMENT_def)

lemma samples_segment:
  assumes "seg + 1 < length sts" "ToBoolean (latitude (sts ! seg))" "ToBoolean (latitude (sts ! (seg + 1)))"
  shows "step \<le> 100 \<Longrightarrow> samples_from fl sts (seg, step) =
     map (interpolated fl (sts ! seg) (sts ! (seg + 1))) [step..<101] @ samples_from fl sts (seg + 1, 0)"
proof (induction "100 - step" arbitrary: step)
  case 0
  then have "step = 100" by simp
  then show ?case
    by (subst samples_from.simps) (simp add: tick_truthy [OF assms])
next
  case (Suc k)
  then have lt: "step < 100" by simp
  have up: "[step..<101] = step # [Suc step..<101]"
    using lt by (simp add: upt_conv_Cons)
  have "samples_from fl sts (seg, step) =
      interpolated fl (sts ! seg) (sts ! (seg + 1)) step # samples_from fl sts (seg, step + 1)"
    using lt by (subst samples_from.simps) (simp add: tick_truthy [OF assms])
  also have "samples_from fl sts (seg, step + 1) =
      map (interpolated fl (sts ! seg) (sts ! (seg + 1))) [step + 1..<101] @ samples_from fl sts (seg + 1, 0)"
    using Suc(2) lt by (intro Suc(1)) simp_all
  finally show ?case by (simp add: up)
qed

lemma samples_end: "length sts - 1 \<le> seg \<Longrightarrow> samples_from fl sts (seg, step) = []"
  by (subst samples_from.simps) (simp add: tick_def)

lemma samples_all:
  assumes "\<forall>s \<in> set sts. ToBoolean (latitude s)"
  shows "seg < length sts \<Longrightarrow>
    samples_from fl sts (seg, 0) = concat (map (segment_samples fl sts) [seg..<length sts - 1])"
proof (induction "length sts - 1 - seg" arbitrary: seg)
  case 0
  then show ?case by (simp add: samples_end)
next
  case (Suc k)
  then have lt: "seg + 1 < length sts" by simp
  have loc: "ToBoolean (latitude (sts ! seg))" "ToBoolean (latitude (sts ! (seg + 1)))"
    using assms lt by simp_all
  have up: "[seg..<length sts - 1] = seg # [seg + 1..<length sts - 1]"
    using lt by (simp add: upt_conv_Cons)
  have "samples_from fl sts (seg, 0) = segment_samples fl sts seg @ samples_from fl sts (seg + 1, 0)"
    using samples_segment [OF lt loc, of 0] by (simp add: segment_samples_def)
  also have "samples_from fl sts (seg + 1, 0) =
      concat (map (segment_samples fl sts) [seg + 1..<length sts - 1])"
    using Suc(2) lt by (intro Suc(1)) simp_all
  finally show ?case by (simp only: up list.map concat.simps)
qed

lemma concat_uniform_length:
  "(\<And>i. length (f i) = L) \<Longrightarrow> length (concat (map f [0..<m])) = m * L"
  by (induction m) simp_all

lemma concat_uniform_nth:
  assumes "\<And>i. length (f i) = L"
  shows "i < m \<Longrightarrow> k < L \<Longrightarrow> concat (map f [0..<m]) ! (i * L + k) = f i ! k"
proof (induction m)
  case 0
  then show ?case by simp
next
  case (Suc m)
  have len: "length (concat (map f [0..<m])) = m * L"
    using assms by (rule concat_uniform_length)
  show ?case
  proof (cases "i < m")
    case True
    then have "i * L + k < m * L"
      using Suc.prems(2) by (metis add.commute mult_Suc nat_add_left_cancel_less Suc_leI mult_le_mono1 less_le_trans add_less_cancel_left)
    then show ?thesis using Suc.IH [OF True Suc.prems(2)] len by (simp add: nth_append)
  next
    case False
    then have "i = m" using Suc.prems(1) by simp
    then show ?thesis using len Suc.prems(2) assms by (simp add: nth_append)
  qed
qed

lemma segment_samples_length: "length (segment_samples fl sts i) = 101"
  by (simp add: segment_samples_def)

lemma segment_samples_nth:
  "k < 101 \<Longrightarrow> segment_samples fl sts i ! k = interpolated fl (sts ! i) (sts ! (i + 1)) k"
  unfolding segment_samples_def by (simp del: upt_Suc)

text \<open>
  The samples of a route whose latitudes are all truthy: 101 for each segment, and the
  sample \<open>k\<close> of the segment \<open>i\<close> at the index \<open>101 * i + k\<close>.
\<close>

lemma playback:
  assumes "2 \<le> length sts" and "\<forall>s \<in> set sts. ToBoolean (latitude s)"
  shows "length (useSimulatedGeolocation fl (Some sts) True) = 101 * (length sts - 1)"
    and "i < length sts - 1 \<Longrightarrow> k < 101 \<Longrightarrow>
      useSimulatedGeolocation fl (Some sts) True ! (101 * i + k) = interpolated fl (sts ! i) (sts ! (i + 1)) k"
    and "last (useSimulatedGeolocation fl (Some sts) True) =
      interpolated fl (sts ! (length sts - 2)) (sts ! (length sts - 1)) 100"
proof -
  let ?out = "useSimulatedGeolocation fl (Some sts) True"
  let ?n = "length sts - 1"
  have n: "0 < ?n" using assms(1) by simp
  have out: "?out = concat (map (segment_samples fl sts) [0..<?n])"
  proof -
    have "0 < length sts" using assms(1) by linarith
    then have "samples_from fl sts (0, 0) = concat (map (segment_samples fl sts) [0..<length sts - 1])"
      by (rule samples_all [OF assms(2)])
    then show ?thesis
      using assms(1) by (simp add: useSimulatedGeolocation_def)
  qed
  show len: "length ?out = 101 * ?n"
    unfolding out using concat_uniform_length [of "segment_samples fl sts" 101 ?n]
    by (simp add: segment_samples_length)
  have nth: "?out ! (101 * j + l) = interpolated fl (sts ! j) (sts ! (j + 1)) l"
    if "j < ?n" "l < 101" for j l
    unfolding out
    using concat_uniform_nth [of "segment_samples fl sts" 101 j ?n l] that
    by (simp add: segment_samples_length segment_samples_nth mult.commute)
  then show "i < length sts - 1 \<Longrightarrow> k < 101 \<Longrightarrow>
      ?out ! (101 * i + k) = interpolated fl (sts ! i) (sts ! (i + 1)) k" .
  have "?out \<noteq> []" using len n by auto
  then have "last ?out = ?out ! (101 * (?n - 1) + 100)"
    using len n by (simp add: last_conv_nth algebra_simps)
  also have "\<dots> = interpolated fl (sts ! (?n - 1)) (sts ! (?n - 1 + 1)) 100"
    using n by (intro nth) simp_all
  also have "?n - 1 = length sts - 2" by simp
  also have "length sts - 2 + 1 = length sts - 1" using assms(1) by simp
  finally show "last ?out = interpolated fl (sts ! (length sts - 2)) (sts ! (length sts - 1)) 100" .
qed

text \<open>
  The binary64 values of the literals \<open>9.4292\<close> and \<open>31.9183\<close>, their rounded
  difference, and the start plus that difference, rounded: both roundings are ties, and
  the second one ends one unit above the value of \<open>31.9183\<close>.
\<close>

lemma fl64_9_4292: "fl64 9.4292 = Num (5308167700800235 / 2 ^ 49)"
  using fl64_eval [of 3 "9.4292" 5308167700800235] by (simp add: pow2_def round_even_def)

lemma fl64_31_9183: "fl64 31.9183 = Num (8984202749143731 / 2 ^ 48)"
  using fl64_eval [of 4 "31.9183" 8984202749143731] by (simp add: pow2_def round_even_def)

lemma fl64_difference:
  "fl64 (8984202749143731 / 2 ^ 48 - 5308167700800235 / 2 ^ 49) = Num (3165059449371807 / 2 ^ 47)"
  using fl64_eval [of 4 "8984202749143731 / 2 ^ 48 - 5308167700800235 / 2 ^ 49" 6330118898743614]
  by (simp add: pow2_def round_even_def)

lemma fl64_arrival:
  "fl64 (5308167700800235 / 2 ^ 49 + 3165059449371807 / 2 ^ 47) = Num (2246050687285933 / 2 ^ 46)"
  using fl64_eval [of 4 "5308167700800235 / 2 ^ 49 + 3165059449371807 / 2 ^ 47" 8984202749143732]
  by (simp add: pow2_def round_even_def)

lemma fl64_76: "fl64 76 = Num 76"
  using fl64_eval [of 6 76 "76 * 2 ^ 46"] by (simp add: pow2_def round_even_def)

lemma fl64_77: "fl64 77 = Num 77"
  using fl64_eval [of 6 77 "77 * 2 ^ 46"] by (simp add: pow2_def round_even_def)

lemma arrival_9_31:
  "interpolated fl64
     \<lparr>latitude = Number (fl64 9.4292), longitude = Number (Num 76)\<rparr>
     \<lparr>latitude = Number (fl64 31.9183), longitude = Number (Num 77)\<rparr> 100 =
   \<lparr>lat = Num (2246050687285933 / 2 ^ 46), lon = Num 77\<rparr>"
proof -
  have d: "fl64 (3165059449371807 / 2 ^ 47) = Num (3165059449371807 / 2 ^ 47)"
    using fl64_difference by (rule fl64_idem)
  show ?thesis
    unfolding interpolated_def Let_def fl64_9_4292 fl64_31_9183
    using fl64_difference fl64_arrival d
    by (simp add: js_sub_def fl64_one fl64_77)
qed

text \<open>
  C3, as stated, fails: the sample at \<open>t = 1\<close> is the start plus the rounded
  difference, and that need not be the end. On the route from (9.4292, 76) to
  (31.9183, 77) the last sample has the latitude 31.918300000000002, one unit of binary64
  above the latitude of the second station.
\<close>

theorem last_sample_misses_station_counterexample:
  "last (useSimulatedGeolocation fl64
      (Some [\<lparr>latitude = Number (fl64 9.4292), longitude = Number (Num 76)\<rparr>,
             \<lparr>latitude = Number (fl64 31.9183), longitude = Number (Num 77)\<rparr>]) True)
     = \<lparr>lat = Num (2246050687285933 / 2 ^ 46), lon = Num 77\<rparr> \<and>
   station_position \<lparr>latitude = Number (fl64 31.9183), longitude = Number (Num 77)\<rparr>
     = \<lparr>lat = Num (8984202749143731 / 2 ^ 48), lon = Num 77\<rparr> \<and>
   last (useSimulatedGeolocation fl64
      (Some [\<lparr>latitude = Number (fl64 9.4292), longitude = Number (Num 76)\<rparr>,
             \<lparr>latitude = Number (fl64 31.9183), longitude = Number (Num 77)\<rparr>]) True)
     \<noteq> station_position \<lparr>latitude = Number (fl64 31.9183), longitude = Number (Num 77)\<rparr>"
proof -
  let ?r = "[\<lparr>latitude = Number (fl64 9.4292), longitude = Number (Num 76)\<rparr>,
             \<lparr>latitude = Number (fl64 31.9183), longitude = Number (Num 77)\<rparr>]"
  have "\<forall>s \<in> set ?r. ToBoolean (latitude s)"
    unfolding fl64_9_4292 fl64_31_9183 by simp
  then have "last (useSimulatedGeolocation fl64 (Some ?r) True) =
      interpolated fl64 (?r ! (length ?r - 2)) (?r ! (length ?r - 1)) 100"
    by (intro playback(3)) simp
  moreover have "?r ! (length ?r - 2) = \<lparr>latitude = Number (fl64 9.4292), longitude = Number (Num 76)\<rparr>"
    "?r ! (length ?r - 1) = \<lparr>latitude = Number (fl64 31.9183), longitude = Number (Num 77)\<rparr>"
    by simp_all
  ultimately have l: "last (useSimulatedGeolocation fl64 (Some ?r) True) =
      \<lparr>lat = Num (2246050687285933 / 2 ^ 46), lon = Num 77\<rparr>"
    by (simp only: arrival_9_31)
  have s: "station_position \<lparr>latitude = Number (fl64 31.9183), longitude = Number (Num 77)\<rparr>
     = \<lparr>lat = Num (8984202749143731 / 2 ^ 48), lon = Num 77\<rparr>"
    unfolding station_position_def fl64_31_9183 by simp
  show ?thesis unfolding l s by simp
qed

text \<open>
  Apart from the rounding, a station on the equator is passed over: its latitude 0 is
  falsy, so the callback skips the segment although the coordinates are present. On this
  route of two stations no sample is emitted at all.
\<close>

lemma equator_station_skipped:
  "useSimulatedGeolocation fl
     (Some [\<lparr>latitude = Number (Num 0), longitude = Number (Num 10)\<rparr>,
            \<lparr>latitude = Number (Num 1), longitude = Number (Num 11)\<rparr>]) True = []"
  by (simp add: useSimulatedGeolocation_def samples_from.simps tick_def)

text \<open>
  C3, amended. For every route of at least two stations whose coordinates are numbers of
  magnitude at most 180 and whose latitudes are not zero, the playback emits 101 samples
  for each segment (steps 0 to 100) and then stops. The sample at step 0 of a segment is
  the position of the station the segment starts from. The sample at step 100
  (\<open>t = 1\<close>) lies within \<open>2\<^sup>-\<^sup>4\<^sup>4\<close> degrees of the position of the station the
  segment ends at, in each coordinate, and it is that position exactly when the
  differences of the coordinates of the two stations are numbers of binary64. The last
  sample is the one at step 100 of the last segment, so it lies that close to the final
  station.
\<close>

theorem useSimulatedGeolocation_reaches_every_station:
  assumes "2 \<le> length sts" and "\<forall>s \<in> set sts. placed s"
  shows "length (useSimulatedGeolocation fl64 (Some sts) True) = 101 * (length sts - 1) \<and>
    (\<forall>i < length sts - 1.
       useSimulatedGeolocation fl64 (Some sts) True ! (101 * i) = station_position (sts ! i) \<and>
       near (1 / 2 ^ 44) (useSimulatedGeolocation fl64 (Some sts) True ! (101 * i + 100))
         (station_position (sts ! (i + 1))) \<and>
       (exact_step (sts ! i) (sts ! (i + 1)) \<longrightarrow>
          useSimulatedGeolocation fl64 (Some sts) True ! (101 * i + 100) =
            station_position (sts ! (i + 1)))) \<and>
    near (1 / 2 ^ 44) (last (useSimulatedGeolocation fl64 (Some sts) True))
      (station_position (last sts))"
proof -
  define out where "out = useSimulatedGeolocation fl64 (Some sts) True"
  define n where "n = length sts - 1"
  have n: "0 < n" "length sts = n + 1" using assms(1) by (simp_all add: n_def)
  have truthy: "\<forall>s \<in> set sts. ToBoolean (latitude s)"
    using assms(2) placed_truthy by blast
  have pb1: "length out = 101 * n"
    unfolding out_def n_def by (rule playback(1) [OF assms(1) truthy])
  have pb2: "out ! (101 * i + k) = interpolated fl64 (sts ! i) (sts ! (i + 1)) k"
    if "i < n" "k < 101" for i k
    using that unfolding out_def n_def by (rule playback(2) [OF assms(1) truthy])
  have pb3: "last out = interpolated fl64 (sts ! (length sts - 2)) (sts ! (length sts - 1)) 100"
    unfolding out_def by (rule playback(3) [OF assms(1) truthy])
  note pb = pb1 pb2 pb3
  have loc: "placed (sts ! i)" if "i \<le> n" for i
    using assms(2) that n(2) by simp
  have ends: "out ! (101 * i) = station_position (sts ! i) \<and>
      near (1 / 2 ^ 44) (out ! (101 * i + 100)) (station_position (sts ! (i + 1))) \<and>
      (exact_step (sts ! i) (sts ! (i + 1)) \<longrightarrow>
         out ! (101 * i + 100) = station_position (sts ! (i + 1)))" if "i < n" for i
  proof -
    have l: "placed (sts ! i)" "placed (sts ! (i + 1))" using that by (simp_all add: loc)
    have "out ! (101 * i + 0) = interpolated fl64 (sts ! i) (sts ! (i + 1)) 0"
      using that by (intro pb(2)) simp_all
    moreover have "out ! (101 * i + 100) = interpolated fl64 (sts ! i) (sts ! (i + 1)) 100"
      using that by (intro pb(2)) simp_all
    ultimately show ?thesis
      using interpolated_start [OF l] interpolated_end [OF l] by simp
  qed
  have "sts ! n = last sts"
  proof -
    have "sts \<noteq> []" using assms(1) by auto
    then show ?thesis unfolding n_def by (rule last_conv_nth [symmetric])
  qed
  moreover have "length sts - 2 = n - 1" "n - 1 + 1 = n" using n by simp_all
  ultimately have "last out = interpolated fl64 (sts ! (n - 1)) (sts ! (n - 1 + 1)) 100"
    "station_position (last sts) = station_position (sts ! (n - 1 + 1))"
    using pb(3) by (simp_all add: n_def)
  moreover have "near (1 / 2 ^ 44) (interpolated fl64 (sts ! (n - 1)) (sts ! (n - 1 + 1)) 100)
      (station_position (sts ! (n - 1 + 1)))"
    using n(1) by (intro interpolated_end(1) loc) simp_all
  ultimately have "near (1 / 2 ^ 44) (last out) (station_position (last sts))" by simp
  with pb(1) ends show ?thesis
    unfolding out_def n_def by blast
qed

lemma fl64_half_steps:
  "fl64 12.5 = Num 12.5" "fl64 13.75 = Num 13.75" "fl64 80.25 = Num 80.25" "fl64 79.5 = Num 79.5"
  "fl64 1.25 = Num 1.25" "fl64 (- 0.75) = Num (- 0.75)"
  using fl64_eval [of 3 "12.5" "25 * 2 ^ 48"] fl64_eval [of 3 "13.75" "55 * 2 ^ 47"]
    fl64_eval [of 6 "80.25" "321 * 2 ^ 44"] fl64_eval [of 6 "79.5" "159 * 2 ^ 45"]
    fl64_eval [of 0 "1.25" "5 * 2 ^ 50"] fl64_eval [of "- 1" "- 0.75" "- (3 * 2 ^ 51)"]
  by (simp_all add: pow2_def round_even_def)

theorem useSimulatedGeolocation_reaches_every_station_witness:
  "length (useSimulatedGeolocation fl64
     (Some [\<lparr>latitude = Number (Num 12.5), longitude = Number (Num 80.25)\<rparr>,
            \<lparr>latitude = Number (Num 13.75), longitude = Number (Num 79.5)\<rparr>]) True) = 101 \<and>
   useSimulatedGeolocation fl64
     (Some [\<lparr>latitude = Number (Num 12.5), longitude = Number (Num 80.25)\<rparr>,
            \<lparr>latitude = Number (Num 13.75), longitude = Number (Num 79.5)\<rparr>]) True ! 0
     = \<lparr>lat = Num 12.5, lon = Num 80.25\<rparr> \<and>
   useSimulatedGeolocation fl64
     (Some [\<lparr>latitude = Number (Num 12.5), longitude = Number (Num 80.25)\<rparr>,
            \<lparr>latitude = Number (Num 13.75), longitude = Number (Num 79.5)\<rparr>]) True ! 100
     = \<lparr>lat = Num 13.75, lon = Num 79.5\<rparr>"
  using useSimulatedGeolocation_reaches_every_station
    [of "[\<lparr>latitude = Number (Num 12.5), longitude = Number (Num 80.25)\<rparr>,
          \<lparr>latitude = Number (Num 13.75), longitude = Number (Num 79.5)\<rparr>]"]
    fl64_half_steps
  by (simp add: placed_def station_position_def exact_step_def binary64_def)

section \<open>The endpoints of the bridge\<close>

lemma match_digits_iff:
  "match_digits n s = Some rest \<longleftrightarrow>
     n \<le> length s \<and> list_all is_digit (take n s) \<and> rest = drop n s"
  by (induction n s rule: match_digits.induct) auto

lemma train_number_pattern_iff:
  "train_number_pattern s \<longleftrightarrow> length s = 5 \<and> list_all is_digit s"
proof -
  have "train_number_pattern s \<longleftrightarrow> match_digits 5 s = Some []"
    by (auto simp: train_number_pattern_def split: option.splits)
  also have "\<dots> \<longleftrightarrow> length s = 5 \<and> list_all is_digit s"
    by (auto simp: match_digits_iff)
  finally show ?thesis .
qed

text \<open>
  C5. For every train number that is not a string of exactly five decimal digits, the
  train-status endpoint, in the bridge and in the router alike, answers with the status
  400 and an error message, and sends no request to the scraper.
\<close>

theorem invalid_train_number_rejected:
  assumes "\<not> (length trainNo = 5 \<and> list_all is_digit trainNo)"
  shows "get_train e trainNo =
      (\<lparr>status_code = 400, json = ErrorBody ''Invalid train number. Must be 5 digits.''\<rparr>, []) \<and>
    router_get_train e trainNo =
      (\<lparr>status_code = 400, json = ErrorBody ''Invalid train number. Must be 5 digits.''\<rparr>, [])"
  using assms by (simp add: get_train_def router_get_train_def train_number_pattern_iff)

theorem invalid_train_number_rejected_witness:
  "\<not> (length ''1266A'' = 5 \<and> list_all is_digit ''1266A'') \<and>
   get_train
     \<lparr>SCRAPER_URL = ''http://localhost:8000'', axios_get = (\<lambda>url. Rejected None None),
      now_iso = ''2026-01-01T00:00:00.000Z'', parseFloat_string = (\<lambda>s. NaN)\<rparr> ''1266A'' =
      (\<lparr>status_code = 400, json = ErrorBody ''Invalid train number. Must be 5 digits.''\<rparr>, []) \<and>
   router_get_train
     \<lparr>SCRAPER_URL = ''http://localhost:8000'', axios_get = (\<lambda>url. Rejected None None),
      now_iso = ''2026-01-01T00:00:00.000Z'', parseFloat_string = (\<lambda>s. NaN)\<rparr> ''1266A'' =
      (\<lparr>status_code = 400, json = ErrorBody ''Invalid train number. Must be 5 digits.''\<rparr>, [])"
proof -
  have h: "\<not> (length ''1266A'' = 5 \<and> list_all is_digit ''1266A'')"
    by (simp add: is_digit_def)
  show ?thesis
    using h invalid_train_number_rejected [OF h] by simp
qed

lemma generateMockRoute_length: "length (generateMockRoute trainNo) = 14"
  by (simp add: generateMockRoute_def route_def)

lemma generateMockRoute_names:
  "map name (generateMockRoute trainNo) =
     [''Chennai Central'', ''Chengalpattu'', ''Villupuram Junction'', ''Cuddalore Port'',
      ''Chidambaram'', ''Mayiladuthurai Jn'', ''Thanjavur Junction'', ''Trichy Junction'',
      ''Dindigul Junction'', ''Madurai Junction'', ''Virudhunagar Jn'', ''Tirunelveli Jn'',
      ''Nagercoil Junction'', ''Kanyakumari'']"
  by (simp add: generateMockRoute_def route_def mock_station_def)

lemma generateMockRoute_codes:
  "map code (generateMockRoute trainNo) =
     [''MAS'', ''CGL'', ''VM'', ''CUPJ'', ''CDM'', ''MV'', ''TJ'', ''TPJ'', ''DG'', ''MDU'',
      ''VPT'', ''TEN'', ''NCJ'', ''CAPE'']"
  by (simp add: generateMockRoute_def route_def mock_station_def)

lemma generateMockRoute_index:
  "map index (generateMockRoute trainNo) = [0, 1, 2, 3, 4, 5, 6, 7, 8, 9, 10, 11, 12, 13]"
  by (simp add: generateMockRoute_def route_def mock_station_def)

lemma generateMockRoute_located: "list_all located (generateMockRoute trainNo)"
  by (simp add: generateMockRoute_def route_def mock_station_def located_def)

text \<open>
  C6. For every train number the demo endpoint succeeds: it answers with the status 200
  and a success body that carries the fixed route of 14 stations from Chennai Central to
  Kanyakumari, in which every station has finite coordinates, its name, its code and its
  index in the route; no request is sent to the scraper.
\<close>

theorem get_demo_always_succeeds:
  "get_demo e trainNo =
     (\<lparr>status_code = 200,
       json = TrainBody
         \<lparr>success = True,
          trainNumber = trainNo,
          trainName = ''Chennai Kanyakumari Cape Express ('' @ trainNo @ '')'',
          lastUpdated = now_iso e,
          stations = generateMockRoute trainNo,
          isDemo = Some True\<rparr>\<rparr>, []) \<and>
   length (generateMockRoute trainNo) = 14 \<and>
   map name (generateMockRoute trainNo) =
     [''Chennai Central'', ''Chengalpattu'', ''Villupuram Junction'', ''Cuddalore Port'',
      ''Chidambaram'', ''Mayiladuthurai Jn'', ''Thanjavur Junction'', ''Trichy Junction'',
      ''Dindigul Junction'', ''Madurai Junction'', ''Virudhunagar Jn'', ''Tirunelveli Jn'',
      ''Nagercoil Junction'', ''Kanyakumari''] \<and>
   map code (generateMockRoute trainNo) =
     [''MAS'', ''CGL'', ''VM'', ''CUPJ'', ''CDM'', ''MV'', ''TJ'', ''TPJ'', ''DG'', ''MDU'',
      ''VPT'', ''TEN'', ''NCJ'', ''CAPE''] \<and>
   map index (generateMockRoute trainNo) = [0, 1, 2, 3, 4, 5, 6, 7, 8, 9, 10, 11, 12, 13] \<and>
   list_all located (generateMockRoute trainNo)"
  by (simp only: get_demo_def Let_def generateMockRoute_length generateMockRoute_names
      generateMockRoute_codes generateMockRoute_index generateMockRoute_located simp_thms)


section \<open>The notifications of the service worker\<close>

lemma distance_text_defined:
  "d \<noteq> Undefined \<Longrightarrow> \<exists>t. distance_text fl sh d = Inr t"
  by (cases d) (simp_all add: distance_text_def)

text \<open>
  An alarm message without a payload, or whose payload has no distance, makes the
  handler throw before any notification is shown; so does a pre-alert message without a
  payload.
\<close>

lemma trigger_alarm_without_distance:
  "on_message fl sh now (Some \<lparr>mtype = Some ''TRIGGER_ALARM'', mpayload = None\<rparr>) = Inl TypeError"
  "distance pl = Undefined \<Longrightarrow>
     on_message fl sh now (Some \<lparr>mtype = Some ''TRIGGER_ALARM'', mpayload = Some pl\<rparr>) = Inl TypeError"
  "on_message fl sh now (Some \<lparr>mtype = Some ''PRE_ALERT'', mpayload = None\<rparr>) = Inl TypeError"
  by (simp_all add: on_message_def showAlarmNotification_def showPreAlertNotification_def
      distance_text_def)

lemma showAlarmNotification_shown:
  assumes "showAlarmNotification fl sh now p = Inr effs"
  shows "\<exists>opts. effs = [ShowNotification alarm_title opts] \<and>
    requireInteraction opts \<and> tag opts = ''destination-alarm''"
  using assms
  by (auto simp: showAlarmNotification_def split: option.splits sum.splits)

lemma showPreAlertNotification_shown:
  assumes "showPreAlertNotification p = Inr effs"
  shows "\<exists>opts. effs = [ShowNotification pre_alert_title opts] \<and>
    \<not> requireInteraction opts \<and> tag opts = ''pre-alert''"
  using assms
  by (auto simp: showPreAlertNotification_def split: option.splits)

text \<open>
  C9. Whatever a \<open>TRIGGER_ALARM\<close> message carries, what the listener shows for it is
  the alarm notification, which requires interaction and has the tag
  \<open>destination-alarm\<close>; whatever a \<open>PRE_ALERT\<close> message carries, what the listener
  shows for it is the pre-alert notification, which does not require interaction and has
  the tag \<open>pre-alert\<close>. The notification is shown for every alarm message whose
  payload has a distance and for every pre-alert message that has a payload.
\<close>

theorem alarm_persistent_pre_alert_transient:
  "(mtype ev = Some ''TRIGGER_ALARM'' \<and> on_message fl sh now (Some ev) = Inr effs \<longrightarrow>
      (\<exists>opts. effs = [ShowNotification alarm_title opts] \<and>
         requireInteraction opts \<and> tag opts = ''destination-alarm'')) \<and>
   (mtype ev = Some ''PRE_ALERT'' \<and> on_message fl sh now (Some ev) = Inr effs \<longrightarrow>
      (\<exists>opts. effs = [ShowNotification pre_alert_title opts] \<and>
         \<not> requireInteraction opts \<and> tag opts = ''pre-alert'')) \<and>
   (mtype ev = Some ''TRIGGER_ALARM'' \<and> mpayload ev = Some pl \<and> distance pl \<noteq> Undefined \<longrightarrow>
      (\<exists>effs. on_message fl sh now (Some ev) = Inr effs)) \<and>
   (mtype ev = Some ''PRE_ALERT'' \<and> mpayload ev = Some pl \<longrightarrow>
      (\<exists>effs. on_message fl sh now (Some ev) = Inr effs))"
proof (intro conjI impI)
  assume "mtype ev = Some ''TRIGGER_ALARM'' \<and> on_message fl sh now (Some ev) = Inr effs"
  then have "showAlarmNotification fl sh now (mpayload ev) = Inr effs"
    by (auto simp: on_message_def)
  then show "\<exists>opts. effs = [ShowNotification alarm_title opts] \<and>
      requireInteraction opts \<and> tag opts = ''destination-alarm''"
    by (rule showAlarmNotification_shown)
next
  assume "mtype ev = Some ''PRE_ALERT'' \<and> on_message fl sh now (Some ev) = Inr effs"
  then have "showPreAlertNotification (mpayload ev) = Inr effs"
    by (auto simp: on_message_def)
  then show "\<exists>opts. effs = [ShowNotification pre_alert_title opts] \<and>
      \<not> requireInteraction opts \<and> tag opts = ''pre-alert''"
    by (rule showPreAlertNotification_shown)
next
  assume a: "mtype ev = Some ''TRIGGER_ALARM'' \<and> mpayload ev = Some pl \<and> distance pl \<noteq> Undefined"
  then obtain t where "distance_text fl sh (distance pl) = Inr t"
    using distance_text_defined by blast
  with a show "\<exists>effs. on_message fl sh now (Some ev) = Inr effs"
    by (simp add: on_message_def showAlarmNotification_def)
next
  assume "mtype ev = Some ''PRE_ALERT'' \<and> mpayload ev = Some pl"
  then show "\<exists>effs. on_message fl sh now (Some ev) = Inr effs"
    by (simp add: on_message_def showPreAlertNotification_def)
qed

theorem alarm_persistent_pre_alert_transient_witness:
  "on_message fl64 (\<lambda>x. []) 0
     (Some \<lparr>mtype = Some ''TRIGGER_ALARM'',
            mpayload = Some \<lparr>stationName = Some ''Villupuram Junction'', distance = Number (Num 1.5),
                              prevStationName = None, destStationName = None\<rparr>\<rparr>)
   = Inr [ShowNotification alarm_title
           \<lparr>body = ''Villupuram Junction is 1.5km away. Get ready!'',
            icon = ''/icons/icon-192x192.png'',
            badge = Some ''/icons/badge-72x72.png'',
            tag = ''destination-alarm'',
            renotify = Some True,
            requireInteraction = True,
            vibrate = [500, 200, 500, 200, 500, 200, 1000],
            actions =
              [(''dismiss'', [CHR 0xE2, CHR 0x9C, CHR 0x85] @ '' I'' @ [CHR 0x27] @ ''m Awake!''),
               (''snooze'', [CHR 0xE2, CHR 0x8F, CHR 0xB0] @ '' Snooze 2 min'')],
            data = Some (AlarmData (Some ''Villupuram Junction'') (Number (Num 1.5)) 0)\<rparr>] \<and>
   on_message fl64 (\<lambda>x. []) 0
     (Some \<lparr>mtype = Some ''PRE_ALERT'',
            mpayload = Some \<lparr>stationName = None, distance = Undefined,
                              prevStationName = Some ''Chengalpattu'',
                              destStationName = Some ''Villupuram Junction''\<rparr>\<rparr>)
   = Inr [ShowNotification pre_alert_title
           \<lparr>body = ''Leaving Chengalpattu. Your destination Villupuram Junction is the next stop!'',
            icon = ''/icons/icon-192x192.png'',
            badge = None,
            tag = ''pre-alert'',
            renotify = None,
            requireInteraction = False,
            vibrate = [200, 100, 200],
            actions = [],
            data = None\<rparr>]"
  using alarm_persistent_pre_alert_transient
    [where ev = "\<lparr>mtype = Some ''TRIGGER_ALARM'',
            mpayload = Some \<lparr>stationName = Some ''Villupuram Junction'', distance = Number (Num 1.5),
                              prevStationName = None, destStationName = None\<rparr>\<rparr>"
       and pl = "\<lparr>stationName = Some ''Villupuram Junction'', distance = Number (Num 1.5),
                              prevStationName = None, destStationName = None\<rparr>"
       and fl = fl64 and sh = "\<lambda>x. []" and now = 0]
    alarm_persistent_pre_alert_transient
    [where ev = "\<lparr>mtype = Some ''PRE_ALERT'',
            mpayload = Some \<lparr>stationName = None, distance = Undefined,
                              prevStationName = Some ''Chengalpattu'',
                              destStationName = Some ''Villupuram Junction''\<rparr>\<rparr>"
       and pl = "\<lparr>stationName = None, distance = Undefined,
                              prevStationName = Some ''Chengalpattu'',
                              destStationName = Some ''Villupuram Junction''\<rparr>"
       and fl = fl64 and sh = "\<lambda>x. []" and now = 0]
  by (simp add: on_message_def showAlarmNotification_def showPreAlertNotification_def
      distance_text_def Let_def show_nat.simps digit_char_def)

section \<open>The text of a distance\<close>

text \<open>\<open>show_nat\<close> writes the decimal digits of its argument.\<close>

lemma digit_value_digit_char: "d < 10 \<Longrightarrow> digit_value (digit_char d) = d"
  by (auto simp: digit_value_def digit_char_def)

lemma read_nat_show_nat: "read_nat (show_nat n) = n"
proof (induction n rule: show_nat.induct)
  case (1 n)
  show ?case
  proof (cases "n < 10")
    case True
    then show ?thesis
      by (subst show_nat.simps) (simp add: read_nat_def digit_value_digit_char)
  next
    case False
    then have "read_nat (show_nat (n div 10)) = n div 10" by (rule 1)
    then show ?thesis
      using False
      by (subst show_nat.simps) (simp add: read_nat_def digit_value_digit_char)
  qed
qed

lemma Number_toString_int:
  "\<bar>k\<bar> < 2 ^ 53 \<Longrightarrow> Number_toString sh (Num (of_int k)) = show_int k"
proof -
  assume "\<bar>k\<bar> < 2 ^ 53"
  then have "\<bar>real_of_int k\<bar> < 2 ^ 53"
    by (metis of_int_abs of_int_less_numeral_power_cancel_iff)
  then show ?thesis
    by (simp only: Number_toString.simps floor_of_int simp_thms if_True)
qed

lemma Number_toString_big:
  "2 ^ 53 \<le> k \<Longrightarrow> Number_toString sh (Num (of_int k)) = sh (of_int k)"
proof -
  assume "2 ^ 53 \<le> k"
  then have "(2::real) ^ 53 \<le> real_of_int k"
    by (metis of_int_le_iff of_int_numeral of_int_power)
  then have "\<not> \<bar>real_of_int k\<bar> < 2 ^ 53" by linarith
  then show ?thesis
    by (simp only: Number_toString.simps floor_of_int simp_thms if_False)
qed

text \<open>
  A rounded number is at most every integer that the number itself is at most, up to
  \<open>2\<^sup>5\<^sup>2\<close>, where the integers are numbers of binary64.
\<close>

lemma fl64_le_int:
  assumes "fl64 x = Num r" "x \<le> of_int N" "\<bar>x\<bar> < pow2 52"
  shows "r \<le> of_int N"
proof (cases "x = 0")
  case True
  then show ?thesis using assms(1,2) by (simp add: fl64_zero)
next
  case False
  define e where "e = max (exponent x) (- 1022)"
  define u where "u = pow2 (e - 52)"
  have u: "0 < u" unfolding u_def by (rule pow2_pos)
  have "pow2 (exponent x) \<le> \<bar>x\<bar>" using False by (rule exponent_bounds)
  with assms(3) have "pow2 (exponent x) < pow2 52" by simp
  then have "exponent x < 52" by (simp only: pow2_less_iff)
  then have e: "e \<le> 52" unfolding e_def by simp
  have "1 / u = pow2 (52 - e)"
    using pow2_diff [of 0 "e - 52"] unfolding u_def by (simp add: pow2_def)
  also have "\<dots> = of_int (2 ^ nat (52 - e))" using e by (intro pow2_int) simp
  finally have iu: "1 / u = of_int (2 ^ nat (52 - e))" .
  have "x / u \<le> of_int N / u" using assms(2) u by (simp add: divide_right_mono)
  also have "of_int N / u = of_int N * (1 / u)" by simp
  also have "\<dots> = of_int (N * 2 ^ nat (52 - e))" unfolding iu by simp
  finally have "round_even (x / u) \<le> N * 2 ^ nat (52 - e)" by (rule round_even_le)
  then have "(of_int (round_even (x / u)) :: real) \<le> of_int (N * 2 ^ nat (52 - e))"
    by (simp only: of_int_le_iff)
  then have "of_int (round_even (x / u)) * u \<le> of_int (N * 2 ^ nat (52 - e)) * u"
    using u by (intro mult_right_mono) simp_all
  also have "of_int (N * 2 ^ nat (52 - e)) * u = of_int N * ((1 / u) * u)"
    unfolding iu by simp
  also have "\<dots> = of_int N" using u by simp
  finally have "of_int (round_even (x / u)) * u \<le> of_int N" .
  moreover have "r = of_int (round_even (x / u)) * u"
    using assms(1) fl64_unfold [OF False] unfolding u_def e_def by (auto split: if_splits)
  ultimately show ?thesis by simp
qed

text \<open>The metres of a distance below 1 km: the product is rounded before \<open>Math.round\<close>.\<close>

lemma round_metres:
  assumes "0 \<le> x" "x < 1"
  obtains r where "fl64 (x * 1000) = Num r" "0 \<le> r" "r \<le> 1000" "\<bar>r - x * 1000\<bar> \<le> 1 / 2 ^ 44"
    "Number_toString sh (Math_round (js_mul fl64 (Num x) (Num 1000))) = show_int \<lfloor>r + 1 / 2\<rfloor>"
proof -
  have small: "\<bar>x * 1000\<bar> < pow2 10" using assms by (simp add: pow2_def)
  then obtain r where r: "fl64 (x * 1000) = Num r" "\<bar>r - x * 1000\<bar> \<le> pow2 (10 - 54)"
    "0 \<le> x * 1000 \<Longrightarrow> 0 \<le> r"
    by (rule fl64_accurate) simp_all
  have r0: "0 \<le> r" using r(3) assms(1) by simp
  have "pow2 10 \<le> pow2 52" by (intro pow2_mono) simp
  with small have "\<bar>x * 1000\<bar> < pow2 52" by simp
  moreover have "x * 1000 \<le> of_int 1000" using assms(2) by simp
  ultimately have "r \<le> of_int 1000" by (intro fl64_le_int [OF r(1)])
  then have r1: "r \<le> 1000" by simp
  have err: "\<bar>r - x * 1000\<bar> \<le> 1 / 2 ^ 44" using r(2) by (simp add: pow2_def)
  have "\<lfloor>r + 1 / 2\<rfloor> \<le> 1000" using r1 by (simp add: floor_le_iff)
  moreover have "0 \<le> \<lfloor>r + 1 / 2\<rfloor>" using r0 by simp
  moreover have "(1000::int) < 2 ^ 53" by simp
  ultimately have "\<bar>\<lfloor>r + 1 / 2\<rfloor>\<bar> < 2 ^ 53" by linarith
  then have "Number_toString sh (Num (of_int \<lfloor>r + 1 / 2\<rfloor>)) = show_int \<lfloor>r + 1 / 2\<rfloor>"
    by (rule Number_toString_int)
  then have "Number_toString sh (Math_round (js_mul fl64 (Num x) (Num 1000))) = show_int \<lfloor>r + 1 / 2\<rfloor>"
    by (simp only: js_mul.simps r(1) Math_round.simps)
  with r(1) r0 r1 err show ?thesis by (rule that)
qed

lemma round_km:
  assumes "10 \<le> x"
  shows "Number_toString sh (Math_round (Num x)) =
     (if \<lfloor>x + 1 / 2\<rfloor> < 2 ^ 53 then show_int \<lfloor>x + 1 / 2\<rfloor> else sh (of_int \<lfloor>x + 1 / 2\<rfloor>))"
proof (cases "\<lfloor>x + 1 / 2\<rfloor> < 2 ^ 53")
  case True
  moreover have "0 \<le> \<lfloor>x + 1 / 2\<rfloor>" using assms by simp
  ultimately have "\<bar>\<lfloor>x + 1 / 2\<rfloor>\<bar> < 2 ^ 53" by linarith
  then have "Number_toString sh (Num (of_int \<lfloor>x + 1 / 2\<rfloor>)) = show_int \<lfloor>x + 1 / 2\<rfloor>"
    by (rule Number_toString_int)
  with True show ?thesis by (simp only: Math_round.simps if_True)
next
  case False
  then have "2 ^ 53 \<le> \<lfloor>x + 1 / 2\<rfloor>" by linarith
  then have "Number_toString sh (Num (of_int \<lfloor>x + 1 / 2\<rfloor>)) = sh (of_int \<lfloor>x + 1 / 2\<rfloor>)"
    by (rule Number_toString_big)
  with False show ?thesis by (simp only: Math_round.simps if_False)
qed

lemma show_nat_digit: "n < 10 \<Longrightarrow> show_nat n = [digit_char n]"
  by (simp add: show_nat.simps)

lemma show_nat_step: "10 \<le> n \<Longrightarrow> show_nat n = show_nat (n div 10) @ [digit_char (n mod 10)]"
  by (subst show_nat.simps) simp

lemma show_nat_hundreds:
  assumes "100 \<le> n"
  shows "show_nat n = show_nat (n div 100) @ [digit_char (n div 10 mod 10), digit_char (n mod 10)]"
proof -
  have a: "show_nat n = show_nat (n div 10) @ [digit_char (n mod 10)]"
    using assms by (intro show_nat_step) simp
  have "10 \<le> n div 10" using assms by simp
  then have b: "show_nat (n div 10) = show_nat (n div 10 div 10) @ [digit_char (n div 10 mod 10)]"
    by (rule show_nat_step)
  have "n div 10 div 10 = n div 100" by (simp add: div_mult2_eq [symmetric])
  with a b show ?thesis by simp
qed

lemma show_nat_nonempty: "show_nat n \<noteq> []"
  by (subst show_nat.simps) simp

lemma toFixed_2:
  assumes "1 \<le> x" "x < 10"
  shows "toFixed sh 2 (Num x) = two_decimals (nat \<lfloor>x * 100 + 1 / 2\<rfloor>)"
proof -
  define n where "n = nat \<lfloor>x * 100 + 1 / 2\<rfloor>"
  have "(100::int) \<le> \<lfloor>x * 100 + 1 / 2\<rfloor>" using assms(1) by (simp add: le_floor_iff)
  then have n: "100 \<le> n" unfolding n_def by linarith
  have sn: "show_nat n = show_nat (n div 100) @ [digit_char (n div 10 mod 10), digit_char (n mod 10)]"
    using n by (rule show_nat_hundreds)
  have len: "length (show_nat n) = length (show_nat (n div 100)) + 2"
    by (subst sn) simp
  have ax: "\<bar>x\<bar> = x" "\<not> x < 0" using assms(1) by simp_all
  have big: "\<not> (10 ^ 21 \<le> x)" using assms(2) by simp
  have m: "nat \<lfloor>x * 10 ^ 2 + 1 / 2\<rfloor> = n"
    by (simp add: n_def)
  show ?thesis
    unfolding toFixed.simps Let_def ax(1) m two_decimals_def n_def [symmetric]
    using big ax(2) len show_nat_nonempty [of "n div 100"]
    by (simp add: sn)
qed

text \<open>Only the positive infinity is replaced by the placeholder.\<close>

lemma formatDistance_negative_infinity: "formatDistance fl sh NegInf = ''-Infinity m''"
  by (simp add: formatDistance_def inf_signed_def)

text \<open>
  C10. For the input Infinity and for NaN \<open>formatDistance\<close> returns the placeholder,
  an em dash. For a finite input that is not negative it returns, below 1 km, the metres
  rounded to the nearest integer, where the metres are the product by 1000 in binary64,
  a number from 0 to 1000 within \<open>2\<^sup>-\<^sup>4\<^sup>4\<close> of the exact product; below 10 km the
  kilometres with two decimals; and otherwise the kilometres rounded to the nearest
  integer, written with all its digits below \<open>2\<^sup>5\<^sup>3\<close> and by \<open>Number::toString\<close>
  from there on.
\<close>

theorem formatDistance_rendering:
  "formatDistance fl64 sh PosInf = em_dash \<and>
   formatDistance fl64 sh NaN = em_dash \<and>
   (0 \<le> x \<and> x < 1 \<longrightarrow>
      (\<exists>r. fl64 (x * 1000) = Num r \<and> 0 \<le> r \<and> r \<le> 1000 \<and> \<bar>r - x * 1000\<bar> \<le> 1 / 2 ^ 44 \<and>
           formatDistance fl64 sh (Num x) = show_int \<lfloor>r + 1 / 2\<rfloor> @ '' m'')) \<and>
   (1 \<le> x \<and> x < 10 \<longrightarrow>
      formatDistance fl64 sh (Num x) = two_decimals (nat \<lfloor>x * 100 + 1 / 2\<rfloor>) @ '' km'') \<and>
   (10 \<le> x \<longrightarrow>
      formatDistance fl64 sh (Num x) =
        (if \<lfloor>x + 1 / 2\<rfloor> < 2 ^ 53 then show_int \<lfloor>x + 1 / 2\<rfloor>
         else sh (of_int \<lfloor>x + 1 / 2\<rfloor>)) @ '' km'')"
proof -
  have inf: "formatDistance fl64 sh PosInf = em_dash" and nan: "formatDistance fl64 sh NaN = em_dash"
    by (simp_all add: formatDistance_def)
  have metres: "\<exists>r. fl64 (x * 1000) = Num r \<and> 0 \<le> r \<and> r \<le> 1000 \<and> \<bar>r - x * 1000\<bar> \<le> 1 / 2 ^ 44 \<and>
                     formatDistance fl64 sh (Num x) = show_int \<lfloor>r + 1 / 2\<rfloor> @ '' m''"
    if "0 \<le> x \<and> x < 1"
  proof -
    from that obtain r where r: "fl64 (x * 1000) = Num r" "0 \<le> r" "r \<le> 1000"
      "\<bar>r - x * 1000\<bar> \<le> 1 / 2 ^ 44"
      "Number_toString sh (Math_round (js_mul fl64 (Num x) (Num 1000))) = show_int \<lfloor>r + 1 / 2\<rfloor>"
      using round_metres [of x sh] by blast
    have "formatDistance fl64 sh (Num x) =
        Number_toString sh (Math_round (js_mul fl64 (Num x) (Num 1000))) @ '' m''"
      using that
      by (simp add: formatDistance_def del: Number_toString.simps Math_round.simps js_mul.simps)
    with r show ?thesis by auto
  qed
  have fixed: "formatDistance fl64 sh (Num x) = two_decimals (nat \<lfloor>x * 100 + 1 / 2\<rfloor>) @ '' km''"
    if "1 \<le> x \<and> x < 10"
  proof -
    have "formatDistance fl64 sh (Num x) = toFixed sh 2 (Num x) @ '' km''"
      using that by (simp add: formatDistance_def del: toFixed.simps)
    also have "toFixed sh 2 (Num x) = two_decimals (nat \<lfloor>x * 100 + 1 / 2\<rfloor>)"
      using that by (intro toFixed_2) simp_all
    finally show ?thesis .
  qed
  have km: "formatDistance fl64 sh (Num x) =
        (if \<lfloor>x + 1 / 2\<rfloor> < 2 ^ 53 then show_int \<lfloor>x + 1 / 2\<rfloor>
         else sh (of_int \<lfloor>x + 1 / 2\<rfloor>)) @ '' km''"
    if "10 \<le> x"
  proof -
    have "formatDistance fl64 sh (Num x) = Number_toString sh (Math_round (Num x)) @ '' km''"
      using that
      by (simp add: formatDistance_def del: Number_toString.simps Math_round.simps)
    also have "Number_toString sh (Math_round (Num x)) =
        (if \<lfloor>x + 1 / 2\<rfloor> < 2 ^ 53 then show_int \<lfloor>x + 1 / 2\<rfloor>
         else sh (of_int \<lfloor>x + 1 / 2\<rfloor>))"
      using that by (rule round_km)
    finally show ?thesis .
  qed
  from inf nan metres fixed km show ?thesis by blast
qed

text \<open>
  The binary64 value of the literal \<open>0.0045\<close> lies below 4.5 m, and its product by
  1000 is rounded to 4.5, which \<open>Math.round\<close> takes to 5.
\<close>

lemma fl64_0_0045: "fl64 0.0045 = Num (5188146770730811 / 2 ^ 60)"
  using fl64_eval [of "- 8" "0.0045" 5188146770730811] by (simp add: pow2_def round_even_def)

lemma fl64_metres_0_0045: "fl64 (5188146770730811 / 2 ^ 60 * 1000) = Num 4.5"
  using fl64_eval [of 2 "5188146770730811 / 2 ^ 60 * 1000" "9 * 2 ^ 49"]
  by (simp add: pow2_def round_even_def)

theorem formatDistance_rendering_witness:
  "formatDistance fl64 (\<lambda>x. []) (fl64 0.0045) = ''5 m'' \<and>
   formatDistance fl64 (\<lambda>x. []) (Num 3.14159) = ''3.14 km'' \<and>
   formatDistance fl64 (\<lambda>x. []) (Num 152.65) = ''153 km'' \<and>
   formatDistance fl64 (\<lambda>x. ''1152921504606847000'') (Num (2 ^ 60)) = ''1152921504606847000 km''"
proof -
  have "0 \<le> (5188146770730811 / 2 ^ 60 :: real) \<and> (5188146770730811 / 2 ^ 60 :: real) < 1"
    by simp
  then obtain r where r: "fl64 (5188146770730811 / 2 ^ 60 * 1000) = Num r"
    "formatDistance fl64 (\<lambda>x. []) (Num (5188146770730811 / 2 ^ 60)) = show_int \<lfloor>r + 1 / 2\<rfloor> @ '' m''"
    using formatDistance_rendering [of "\<lambda>x. []" "5188146770730811 / 2 ^ 60"] by blast
  from r(1) have "r + 1 / 2 = 5" unfolding fl64_metres_0_0045 by simp
  then have "\<lfloor>r + 1 / 2\<rfloor> = \<lfloor>5 :: real\<rfloor>" by (simp only:)
  then have "\<lfloor>r + 1 / 2\<rfloor> = 5" by simp
  then have "formatDistance fl64 (\<lambda>x. []) (fl64 0.0045) = ''5 m''"
    unfolding fl64_0_0045 r(2) by (simp add: show_int_def show_nat.simps digit_char_def)
  then show ?thesis
    using formatDistance_rendering [of "\<lambda>x. []" "3.14159"]
      formatDistance_rendering [of "\<lambda>x. []" "152.65"]
      formatDistance_rendering [of "\<lambda>x. ''1152921504606847000''" "2 ^ 60"]
    by (simp add: show_int_def two_decimals_def show_nat.simps digit_char_def)
qed

end
